theory Spec2Isabelle
  imports Complex_Main "HOL-Library.Sublist"
begin

section \<open>Python values, errors and string formatting\<close>

text \<open>
  The dashboard is written in Python. A row of \<^verbatim>\<open>processed_weather_data\<close> reaches the
  program as a \<^verbatim>\<open>dict\<close> from column names to values. The values the program handles are
  integers, floats, strings and \<^verbatim>\<open>None\<close> (a NULL column). A finite float is a rational
  number, so \<open>FloatV\<close> carries a \<open>rat\<close>; infinities, NaN and the sign of a float zero are
  outside this model. Strings are byte strings: a character beyond ASCII is written as its
  UTF-8 bytes.
\<close>

datatype pyval = IntV int | FloatV rat | StrV string | NoneV

datatype py_error =
    TypeError
  | ValueError
  | KeyError string
  | IndexError
  | AttributeError
  | TclError
  | OverflowError

text \<open>
  A \<^verbatim>\<open>dict\<close> is an association list in insertion order; a lookup takes the first
  entry of the key.
\<close>

type_synonym weather_data = "(string \<times> pyval) list"

text \<open>Sequencing of statements that may raise: the first exception ends the block.\<close>

definition err_bind :: "'e + 'a \<Rightarrow> ('a \<Rightarrow> 'e + 'b) \<Rightarrow> 'e + 'b" where
  "err_bind m f = (case m of Inl e \<Rightarrow> Inl e | Inr x \<Rightarrow> f x)"

text \<open>\<^verbatim>\<open>d.get(key, default)\<close> and \<^verbatim>\<open>d[key]\<close>.\<close>

definition dict_get :: "weather_data \<Rightarrow> string \<Rightarrow> pyval \<Rightarrow> pyval" where
  "dict_get d k dflt = (case map_of d k of None \<Rightarrow> dflt | Some v \<Rightarrow> v)"

definition dict_index :: "weather_data \<Rightarrow> string \<Rightarrow> py_error + pyval" where
  "dict_index d k = (case map_of d k of None \<Rightarrow> Inl (KeyError k) | Some v \<Rightarrow> Inr v)"

text \<open>
  The number a value stands for. Python compares an \<^verbatim>\<open>int\<close> with a \<^verbatim>\<open>float\<close> by their
  exact values; comparing a string or \<^verbatim>\<open>None\<close> with a float raises \<^verbatim>\<open>TypeError\<close>.
\<close>

fun num_of :: "pyval \<Rightarrow> rat option" where
  "num_of (IntV i) = Some (of_int i)"
| "num_of (FloatV q) = Some q"
| "num_of (StrV s) = None"
| "num_of NoneV = None"

definition py_gt :: "pyval \<Rightarrow> rat \<Rightarrow> py_error + bool" where
  "py_gt v bound = (case num_of v of None \<Rightarrow> Inl TypeError | Some x \<Rightarrow> Inr (bound < x))"

definition py_lt :: "pyval \<Rightarrow> rat \<Rightarrow> py_error + bool" where
  "py_lt v bound = (case num_of v of None \<Rightarrow> Inl TypeError | Some x \<Rightarrow> Inr (x < bound))"

text \<open>Decimal digits of a natural number.\<close>

definition digit_char :: "nat \<Rightarrow> char" where
  "digit_char d = ''0123456789'' ! d"

fun show_nat :: "nat \<Rightarrow> string" where
  "show_nat n =
     (if n < 10 then [digit_char n] else show_nat (n div 10) @ [digit_char (n mod 10)])"

declare show_nat.simps [simp del]

text \<open>
  The format specifications \<^verbatim>\<open>:.1f\<close> and \<^verbatim>\<open>:.0f\<close>: the decimal expansion with \<open>p\<close>
  digits after the point, correctly rounded from the exact value, a tie going to the even
  neighbour. A negative value keeps its sign when it rounds to zero
  (\<^verbatim>\<open>f'{-0.04:.1f}'\<close> is \<^verbatim>\<open>'-0.0'\<close>).
\<close>

definition round_half_even :: "rat \<Rightarrow> int" where
  "round_half_even x =
     (let f = \<lfloor>x\<rfloor>; r = x - of_int f
      in if r < 1 / 2 then f else if 1 / 2 < r then f + 1 else if even f then f else f + 1)"

definition format_fixed :: "nat \<Rightarrow> rat \<Rightarrow> string" where
  "format_fixed p x =
     (let n = nat (round_half_even (\<bar>x\<bar> * 10 ^ p));
          whole = show_nat (n div 10 ^ p);
          frac = show_nat (n mod 10 ^ p)
      in (if x < 0 then ''-'' else '''') @ whole @
         (if p = 0 then '''' else ''.'' @ replicate (p - length frac) CHR ''0'' @ frac))"

text \<open>
  A Python \<^verbatim>\<open>float\<close> is a double. \<^verbatim>\<open>int.bit_length\<close>, and the conversion of an \<^verbatim>\<open>int\<close> to
  the nearest double: an integer of at most 53 bits is a double already; a longer one
  keeps its 53 leading bits, rounded to nearest with a tie going to the even neighbour.
  A result of \<open>2 ^ 1024\<close> or more is beyond the doubles and raises \<^verbatim>\<open>OverflowError\<close>.
\<close>

fun bit_length :: "nat \<Rightarrow> nat" where
  "bit_length n = (if n = 0 then 0 else Suc (bit_length (n div 2)))"

declare bit_length.simps [simp del]

definition round_to_double :: "nat \<Rightarrow> nat" where
  "round_to_double n =
     (if bit_length n \<le> 53 then n
      else
        let d = 2 ^ (bit_length n - 53); q = n div d; r = n mod d
        in (if 2 * r < d then q else if d < 2 * r then q + 1
            else if even q then q else q + 1) * d)"

definition float_of_int :: "int \<Rightarrow> py_error + rat" where
  "float_of_int i =
     (let x = round_to_double (nat \<bar>i\<bar>)
      in if 2 ^ 1024 \<le> x then Inl OverflowError
         else Inr (if i < 0 then - of_nat x else of_nat x))"

text \<open>
  Formatting a value with \<^verbatim>\<open>:.<p>f\<close>. The number that is formatted: a \<^verbatim>\<open>float\<close> itself,
  an \<^verbatim>\<open>int\<close> converted to a double first. A string raises \<^verbatim>\<open>ValueError\<close> (unknown
  format code), \<^verbatim>\<open>None\<close> raises \<^verbatim>\<open>TypeError\<close>.
\<close>

fun format_operand :: "pyval \<Rightarrow> py_error + rat" where
  "format_operand (IntV i) = float_of_int i"
| "format_operand (FloatV q) = Inr q"
| "format_operand (StrV s) = Inl ValueError"
| "format_operand NoneV = Inl TypeError"

definition format_f :: "nat \<Rightarrow> pyval \<Rightarrow> py_error + string" where
  "format_f p v = err_bind (format_operand v) (\<lambda>x. Inr (format_fixed p x))"

text \<open>The degree sign (U+00B0) followed by \<open>C\<close>, and the icons of the alerts, as UTF-8.\<close>

definition degC :: string where
  "degC = [CHR 0xC2, CHR 0xB0, CHR ''C'']"

definition icon_fire :: string where
  "icon_fire = [CHR 0xF0, CHR 0x9F, CHR 0x94, CHR 0xA5]"

definition icon_cold :: string where
  "icon_cold = [CHR 0xF0, CHR 0x9F, CHR 0xA5, CHR 0xB6]"

definition icon_wind :: string where
  "icon_wind = [CHR 0xF0, CHR 0x9F, CHR 0x92, CHR 0xA8]"

definition icon_storm :: string where
  "icon_storm = [CHR 0xE2, CHR 0x9B, CHR 0x88, CHR 0xEF, CHR 0xB8, CHR 0x8F]"

definition icon_warning :: string where
  "icon_warning = [CHR 0xE2, CHR 0x9A, CHR 0xA0, CHR 0xEF, CHR 0xB8, CHR 0x8F]"

section \<open>WeatherAlertsManager\<close>

text \<open>
  An alert is the dict \<^verbatim>\<open>{'type', 'severity', 'title', 'message', 'icon'}\<close>; the field
  \<open>alert_type\<close> is the key \<^verbatim>\<open>'type'\<close>. The thresholds are the five entries that
  \<^verbatim>\<open>__init__\<close> stores in \<^verbatim>\<open>self.alert_thresholds\<close>. The manager's state is the
  thresholds, \<^verbatim>\<open>self.active_alerts\<close>, and the alert windows that \<^verbatim>\<open>display_alerts\<close> has
  opened, each recorded by the alerts it lists.
\<close>

record alert =
  alert_type :: string
  severity :: string
  title :: string
  message :: string
  icon :: string

record thresholds =
  high_temperature :: rat
  low_temperature :: rat
  high_wind_speed :: rat
  low_pressure :: rat
  high_severity :: rat

record alerts_manager =
  alert_thresholds :: thresholds
  active_alerts :: "alert list"
  alert_windows :: "alert list list"

definition default_thresholds :: thresholds where
  "default_thresholds =
     \<lparr>high_temperature = 35, low_temperature = - 10, high_wind_speed = 15,
      low_pressure = 980, high_severity = 70\<rparr>"

definition init_alerts_manager :: alerts_manager where
  "init_alerts_manager =
     \<lparr>alert_thresholds = default_thresholds, active_alerts = [], alert_windows = []\<rparr>"

definition high_temperature_alert :: "string \<Rightarrow> alert" where
  "high_temperature_alert shown =
     \<lparr>alert_type = ''temperature'', severity = ''warning'',
      title = ''High Temperature Alert'',
      message = ''Temperature is very high: '' @ shown @ degC, icon = icon_fire\<rparr>"

definition low_temperature_alert :: "string \<Rightarrow> alert" where
  "low_temperature_alert shown =
     \<lparr>alert_type = ''temperature'', severity = ''warning'',
      title = ''Low Temperature Alert'',
      message = ''Temperature is very low: '' @ shown @ degC, icon = icon_cold\<rparr>"

definition high_wind_alert :: "string \<Rightarrow> alert" where
  "high_wind_alert shown =
     \<lparr>alert_type = ''wind'', severity = ''caution'', title = ''High Wind Alert'',
      message = ''Strong winds detected: '' @ shown @ '' m/s'', icon = icon_wind\<rparr>"

definition low_pressure_alert :: "string \<Rightarrow> alert" where
  "low_pressure_alert shown =
     \<lparr>alert_type = ''pressure'', severity = ''watch'', title = ''Low Pressure Alert'',
      message = ''Low pressure system detected: '' @ shown @ '' hPa'', icon = icon_storm\<rparr>"

definition severe_weather_alert :: "string \<Rightarrow> alert" where
  "severe_weather_alert shown =
     \<lparr>alert_type = ''severity'', severity = ''warning'', title = ''Severe Weather Alert'',
      message = ''High weather severity index: '' @ shown @ ''/100'', icon = icon_warning\<rparr>"

text \<open>
  The four blocks of \<^verbatim>\<open>check_weather_alerts\<close>, each giving the alerts it appends to
  \<^verbatim>\<open>new_alerts\<close>, or the exception it raises.
\<close>

definition temperature_alerts :: "thresholds \<Rightarrow> weather_data \<Rightarrow> py_error + alert list" where
  "temperature_alerts th weather_data =
     (let temp = dict_get weather_data ''temperature'' (IntV 0) in
      err_bind (py_gt temp (high_temperature th)) (\<lambda>hot.
        if hot then
          err_bind (format_f 1 temp) (\<lambda>shown. Inr [high_temperature_alert shown])
        else
          err_bind (py_lt temp (low_temperature th)) (\<lambda>cold.
            if cold then
              err_bind (format_f 1 temp) (\<lambda>shown. Inr [low_temperature_alert shown])
            else Inr [])))"

definition wind_alerts :: "thresholds \<Rightarrow> weather_data \<Rightarrow> py_error + alert list" where
  "wind_alerts th weather_data =
     (let wind_speed = dict_get weather_data ''wind_speed'' (IntV 0) in
      err_bind (py_gt wind_speed (high_wind_speed th)) (\<lambda>windy.
        if windy then
          err_bind (format_f 1 wind_speed) (\<lambda>shown. Inr [high_wind_alert shown])
        else Inr []))"

definition pressure_alerts :: "thresholds \<Rightarrow> weather_data \<Rightarrow> py_error + alert list" where
  "pressure_alerts th weather_data =
     (let pressure = dict_get weather_data ''pressure'' (IntV 1013) in
      err_bind (py_lt pressure (low_pressure th)) (\<lambda>low.
        if low then
          err_bind (format_f 1 pressure) (\<lambda>shown. Inr [low_pressure_alert shown])
        else Inr []))"

definition severity_alerts :: "thresholds \<Rightarrow> weather_data \<Rightarrow> py_error + alert list" where
  "severity_alerts th weather_data =
     (let sev = dict_get weather_data ''weather_severity'' (IntV 0) in
      err_bind (py_gt sev (high_severity th)) (\<lambda>severe.
        if severe then
          err_bind (format_f 0 sev) (\<lambda>shown. Inr [severe_weather_alert shown])
        else Inr []))"

text \<open>
  \<^verbatim>\<open>display_alerts\<close> returns at once when there is no active alert; otherwise it opens one
  window listing the active alerts.
\<close>

definition display_alerts :: "alerts_manager \<Rightarrow> alerts_manager" where
  "display_alerts mgr =
     (if active_alerts mgr = [] then mgr
      else mgr\<lparr>alert_windows := alert_windows mgr @ [active_alerts mgr]\<rparr>)"

text \<open>
  \<^verbatim>\<open>check_weather_alerts\<close>: the blocks run in the order temperature, wind, pressure,
  severity; the result replaces \<^verbatim>\<open>self.active_alerts\<close>, is displayed when it is not
  empty, and is returned. An exception leaves the manager as it was.
\<close>

definition check_weather_alerts ::
    "alerts_manager \<Rightarrow> weather_data \<Rightarrow> py_error + (alert list \<times> alerts_manager)" where
  "check_weather_alerts mgr weather_data =
     (let th = alert_thresholds mgr in
      err_bind (temperature_alerts th weather_data) (\<lambda>a1.
      err_bind (wind_alerts th weather_data) (\<lambda>a2.
      err_bind (pressure_alerts th weather_data) (\<lambda>a3.
      err_bind (severity_alerts th weather_data) (\<lambda>a4.
        let new_alerts = a1 @ a2 @ a3 @ a4;
            mgr1 = mgr\<lparr>active_alerts := new_alerts\<rparr>;
            mgr2 = (if new_alerts \<noteq> [] then display_alerts mgr1 else mgr1)
        in Inr (new_alerts, mgr2))))))"

text \<open>
  A field of a reading is absent, or holds a number that \<^verbatim>\<open>:.1f\<close> can format: a float,
  or an int within the range of the doubles.
\<close>

definition formattable_or_absent :: "weather_data \<Rightarrow> string \<Rightarrow> bool" where
  "formattable_or_absent weather_data k =
     (case map_of weather_data k of
        None \<Rightarrow> True
      | Some v \<Rightarrow> (case format_operand v of Inl e \<Rightarrow> False | Inr x \<Rightarrow> True))"

section \<open>Strings: \<^verbatim>\<open>split\<close>, \<^verbatim>\<open>int\<close>, \<^verbatim>\<open>str\<close>, \<^verbatim>\<open>title\<close>\<close>

text \<open>
  \<^verbatim>\<open>s.split(sep)\<close> cuts \<open>s\<close> at every occurrence of \<open>sep\<close>, scanning from the left; an
  empty separator raises \<^verbatim>\<open>ValueError\<close>. \<open>part\<close> is the piece read since the last cut.
\<close>

function split_loop :: "string \<Rightarrow> string \<Rightarrow> string \<Rightarrow> string list" where
  "split_loop sep part [] = [part]"
| "split_loop sep part (c # cs) =
     (if sep \<noteq> [] \<and> take (length sep) (c # cs) = sep
      then part # split_loop sep [] (drop (length sep) (c # cs))
      else split_loop sep (part @ [c]) cs)"
  by pat_completeness auto

termination
  by (relation "measure (\<lambda>(sep, part, s). length s)") auto

definition py_split :: "string \<Rightarrow> string \<Rightarrow> py_error + string list" where
  "py_split s sep = (if sep = [] then Inl ValueError else Inr (split_loop sep [] s))"

text \<open>
  The two lines that \<^verbatim>\<open>_load_data_background\<close>, \<^verbatim>\<open>update_trends_chart\<close>,
  \<^verbatim>\<open>update_historical_chart\<close> and \<^verbatim>\<open>export_current_data\<close> share:
  \<^verbatim>\<open>city_parts = self.current_city.split(', ')\<close> and
  \<^verbatim>\<open>city, country = city_parts[0], city_parts[1] if len(city_parts) > 1 else ''\<close>.
\<close>

definition city_and_country :: "string \<Rightarrow> py_error + string \<times> string" where
  "city_and_country current_city =
     err_bind (py_split current_city '', '') (\<lambda>city_parts.
       case city_parts of
         [] \<Rightarrow> Inl IndexError
       | city # rest \<Rightarrow>
           Inr (city, if length city_parts > 1 then city_parts ! 1 else []))"

text \<open>
  The specification's reading of a CitySelector, for comparison: cut at the first
  occurrence of the separator only; the city is the text before it, the country all the
  text after it, or empty when the separator does not occur.
\<close>

fun split_on_first :: "string \<Rightarrow> string \<Rightarrow> string \<times> string" where
  "split_on_first sep [] = ([], [])"
| "split_on_first sep (c # cs) =
     (if take (length sep) (c # cs) = sep then ([], drop (length sep) (c # cs))
      else (c # fst (split_on_first sep cs), snd (split_on_first sep cs)))"

definition spec_city_and_country :: "string \<Rightarrow> string \<times> string" where
  "spec_city_and_country selector = split_on_first '', '' selector"

text \<open>
  \<^verbatim>\<open>int(s)\<close> on a string, base ten: blanks around the number are dropped, one sign may
  lead, and single underscores may stand between digits. Anything else raises
  \<^verbatim>\<open>ValueError\<close>. Only ASCII blanks and digits are read here.
\<close>

definition is_space :: "char \<Rightarrow> bool" where
  "is_space c = (c \<in> set [CHR '' '', CHR 0x09, CHR 0x0A, CHR 0x0B, CHR 0x0C, CHR 0x0D])"

definition is_digit :: "char \<Rightarrow> bool" where
  "is_digit c = (c \<in> set ''0123456789'')"

definition digit_val :: "char \<Rightarrow> nat" where
  "digit_val c = of_char c - 48"

definition strip :: "string \<Rightarrow> string" where
  "strip s = rev (dropWhile is_space (rev (dropWhile is_space s)))"

fun parse_digits :: "nat \<Rightarrow> string \<Rightarrow> nat option" where
  "parse_digits acc [] = Some acc"
| "parse_digits acc [c] = (if is_digit c then Some (10 * acc + digit_val c) else None)"
| "parse_digits acc (c # d # cs) =
     (if is_digit c then parse_digits (10 * acc + digit_val c) (d # cs)
      else if c = CHR ''_'' \<and> is_digit d then parse_digits (10 * acc + digit_val d) cs
      else None)"

definition parse_unsigned :: "string \<Rightarrow> nat option" where
  "parse_unsigned s =
     (case s of [] \<Rightarrow> None
      | c # cs \<Rightarrow> if is_digit c then parse_digits (digit_val c) cs else None)"

definition py_int :: "string \<Rightarrow> py_error + int" where
  "py_int s =
     (let t = strip s;
          parsed =
            (if t \<noteq> [] \<and> hd t = CHR ''-''
               then map_option (\<lambda>n. - int n) (parse_unsigned (tl t))
             else if t \<noteq> [] \<and> hd t = CHR ''+''
               then map_option int (parse_unsigned (tl t))
             else map_option int (parse_unsigned t))
      in case parsed of None \<Rightarrow> Inl ValueError | Some i \<Rightarrow> Inr i)"

definition show_int :: "int \<Rightarrow> string" where
  "show_int i = (if i < 0 then ''-'' @ show_nat (nat (- i)) else show_nat (nat i))"

text \<open>
  \<^verbatim>\<open>str.title()\<close> on ASCII text: in every run of letters the first is upper case and the
  others lower case. \<open>prev\<close> says that the character before was a letter.
\<close>

definition lowercase :: string where
  "lowercase = ''abcdefghijklmnopqrstuvwxyz''"

definition uppercase :: string where
  "uppercase = ''ABCDEFGHIJKLMNOPQRSTUVWXYZ''"

definition to_upper :: "char \<Rightarrow> char" where
  "to_upper c = (case map_of (zip lowercase uppercase) c of None \<Rightarrow> c | Some u \<Rightarrow> u)"

definition to_lower :: "char \<Rightarrow> char" where
  "to_lower c = (case map_of (zip uppercase lowercase) c of None \<Rightarrow> c | Some l \<Rightarrow> l)"

fun title_from :: "bool \<Rightarrow> string \<Rightarrow> string" where
  "title_from prev [] = []"
| "title_from prev (c # cs) =
     (if c \<in> set lowercase then (if prev then c else to_upper c) # title_from True cs
      else if c \<in> set uppercase then (if prev then to_lower c else c) # title_from True cs
      else c # title_from False cs)"

definition py_title :: "pyval \<Rightarrow> py_error + string" where
  "py_title v =
     (case v of
        StrV s \<Rightarrow> Inr (title_from False s)
      | IntV i \<Rightarrow> Inl AttributeError
      | FloatV q \<Rightarrow> Inl AttributeError
      | NoneV \<Rightarrow> Inl AttributeError)"

section \<open>The environment of the application\<close>

text \<open>
  What the program reads from outside: the answer of the database to the latest-reading
  query of \<^verbatim>\<open>get_current_weather_data\<close> and to the city query of
  \<^verbatim>\<open>get_available_cities\<close>, the wall clock as \<^verbatim>\<open>strftime('%H:%M:%S')\<close> prints it,
  Python's \<^verbatim>\<open>str\<close> of a float (the shortest decimal that reads back as the same float,
  which the rational value alone does not determine), and the refresh intervals that
  Tcl's \<^verbatim>\<open>after\<close> accepts as a delay in milliseconds: it reads the delay as a 64-bit
  integer, and \<^verbatim>\<open>root.after\<close> raises \<^verbatim>\<open>TclError\<close> for a number beyond that.
\<close>

datatype query_result = SqliteError string | NoRow | Row weather_data

datatype cities_result = CitiesError string | Cities "(string \<times> string) list"

record environment =
  latest_reading :: "string \<Rightarrow> string \<Rightarrow> query_result"
  distinct_cities :: cities_result
  clock :: string
  float_str :: "rat \<Rightarrow> string"
  accepts_delay :: "int \<Rightarrow> bool"

definition py_str :: "environment \<Rightarrow> pyval \<Rightarrow> string" where
  "py_str env v =
     (case v of
        IntV i \<Rightarrow> show_int i
      | FloatV q \<Rightarrow> float_str env q
      | StrV s \<Rightarrow> s
      | NoneV \<Rightarrow> ''None'')"

section \<open>WeatherApp: state and display\<close>

text \<open>
  A message shown to the user. \<open>WithError prefix e\<close> is the f-string that ends in
  \<^verbatim>\<open>{e}\<close> for a caught exception \<open>e\<close>; the text of \<^verbatim>\<open>str(e)\<close> is not spelled out.
\<close>

datatype notice = Plain string | WithError string py_error

text \<open>
  The application state of \<^verbatim>\<open>WeatherApp.__init__\<close> and the widgets that the refresh
  pipeline writes: each label by its text, the progress bar by its value, the
  temperature label also by its style. \<open>error_boxes\<close> lists the
  \<^verbatim>\<open>messagebox.showerror\<close> dialogs shown so far.
\<close>

record weather_app =
  current_city :: "string option"
  current_data :: "weather_data option"
  refresh_interval :: int
  theme :: string
  city_values :: "string list"
  city_var :: string
  temp_label :: string
  temp_style :: string
  desc_label :: string
  feels_like_label :: string
  humidity_label :: string
  pressure_label :: string
  wind_speed_label :: string
  comfort_label :: string
  comfort_bar :: pyval
  heat_index_label :: string
  wind_chill_label :: string
  severity_label :: string
  last_update_label :: string
  local_time_label :: string
  status_label :: string
  error_boxes :: "notice list"

definition init_app :: weather_app where
  "init_app =
     \<lparr>current_city = None, current_data = None, refresh_interval = 30000,
      theme = ''clam'', city_values = [], city_var = [],
      temp_label = ''--'' @ degC, temp_style = ''Large.TLabel'',
      desc_label = ''Loading...'', feels_like_label = ''-- '' @ degC,
      humidity_label = ''-- %'', pressure_label = ''-- hPa'',
      wind_speed_label = ''-- m/s'', comfort_label = ''--'', comfort_bar = IntV 0,
      heat_index_label = ''Heat Index: --'' @ degC,
      wind_chill_label = ''Wind Chill: --'' @ degC,
      severity_label = ''Weather Severity: --'',
      last_update_label = ''Last Update: --'', local_time_label = ''Local Time: --'',
      status_label = ''Ready'', error_boxes = []\<rparr>"

definition update_status :: "weather_app \<Rightarrow> string \<Rightarrow> weather_app" where
  "update_status app msg = app\<lparr>status_label := msg\<rparr>"

definition show_error :: "weather_app \<Rightarrow> notice \<Rightarrow> weather_app" where
  "show_error app msg =
     update_status (app\<lparr>error_boxes := error_boxes app @ [msg]\<rparr>) ''Error occurred''"

text \<open>
  A block of statements run in order on a state: the first statement that raises ends the
  block, and the state keeps what the statements before it wrote.
\<close>

fun run_steps :: "('s \<Rightarrow> py_error + 's) list \<Rightarrow> 's \<Rightarrow> 's \<times> py_error option" where
  "run_steps [] s = (s, None)"
| "run_steps (f # fs) s =
     (case f s of Inl e \<Rightarrow> (s, Some e) | Inr s' \<Rightarrow> run_steps fs s')"

text \<open>
  \<^verbatim>\<open>_update_ui_with_data\<close>, statement by statement. The two chart updates catch their own
  exceptions and draw on the canvases only, so they leave this state as it is.
\<close>

definition update_ui_with_data ::
    "environment \<Rightarrow> weather_app \<Rightarrow> weather_data \<Rightarrow> weather_app \<times> py_error option" where
  "update_ui_with_data env app data =
     run_steps
      [\<lambda>a. Inr (a\<lparr>current_data := Some data\<rparr>),
       \<lambda>a. err_bind (dict_index data ''temperature'') (\<lambda>v.
            err_bind (format_f 1 v) (\<lambda>shown. Inr (a\<lparr>temp_label := shown @ degC\<rparr>))),
       \<lambda>a. err_bind (dict_index data ''weather_description'') (\<lambda>v.
            err_bind (py_title v) (\<lambda>shown. Inr (a\<lparr>desc_label := shown\<rparr>))),
       \<lambda>a. err_bind (dict_index data ''feels_like'') (\<lambda>v.
            err_bind (format_f 1 v) (\<lambda>shown. Inr (a\<lparr>feels_like_label := shown @ degC\<rparr>))),
       \<lambda>a. err_bind (dict_index data ''humidity'') (\<lambda>v.
            Inr (a\<lparr>humidity_label := py_str env v @ ''%''\<rparr>)),
       \<lambda>a. err_bind (dict_index data ''pressure'') (\<lambda>v.
            err_bind (format_f 1 v) (\<lambda>shown. Inr (a\<lparr>pressure_label := shown @ '' hPa''\<rparr>))),
       \<lambda>a. err_bind (dict_index data ''wind_speed'') (\<lambda>v.
            err_bind (format_f 1 v) (\<lambda>shown. Inr (a\<lparr>wind_speed_label := shown @ '' m/s''\<rparr>))),
       \<lambda>a. let comfort = dict_get data ''comfort_index'' (IntV 0) in
            err_bind (format_f 0 comfort) (\<lambda>shown.
              Inr (a\<lparr>comfort_label := shown @ ''/100'', comfort_bar := comfort\<rparr>)),
       \<lambda>a. err_bind (format_f 1 (dict_get data ''heat_index_c'' (IntV 0))) (\<lambda>shown.
            Inr (a\<lparr>heat_index_label := ''Heat Index: '' @ shown @ degC\<rparr>)),
       \<lambda>a. err_bind (format_f 1 (dict_get data ''wind_chill_c'' (IntV 0))) (\<lambda>shown.
            Inr (a\<lparr>wind_chill_label := ''Wind Chill: '' @ shown @ degC\<rparr>)),
       \<lambda>a. err_bind (format_f 0 (dict_get data ''weather_severity'' (IntV 0))) (\<lambda>shown.
            Inr (a\<lparr>severity_label := ''Weather Severity: '' @ shown @ ''/100''\<rparr>)),
       \<lambda>a. err_bind (dict_index data ''timestamp'') (\<lambda>v.
            Inr (a\<lparr>last_update_label := ''Last Update: '' @ py_str env v\<rparr>)),
       \<lambda>a. Inr (a\<lparr>local_time_label := ''Local Time: '' @ clock env\<rparr>),
       \<lambda>a. err_bind (dict_index data ''temperature'') (\<lambda>temp.
            err_bind (py_gt temp 30) (\<lambda>hot.
              if hot then Inr (a\<lparr>temp_style := ''Hot.TLabel''\<rparr>)
              else err_bind (py_lt temp 10) (\<lambda>cold.
                if cold then Inr (a\<lparr>temp_style := ''Cold.TLabel''\<rparr>)
                else Inr (a\<lparr>temp_style := ''Normal.TLabel''\<rparr>)))),
       \<lambda>a. Inr (update_status a ''Data updated successfully'')]
      app"

section \<open>PreferencesDialog\<close>

text \<open>
  The dialog holds three Tk variables and lives until \<^verbatim>\<open>destroy\<close>. \<^verbatim>\<open>__init__\<close> fills
  them from the application; the user may then edit them.
\<close>

record preferences_dialog =
  refresh_var :: string
  temp_units_var :: string
  theme_var :: string
  dialog_open :: bool

definition open_preferences :: "weather_app \<Rightarrow> preferences_dialog" where
  "open_preferences app =
     \<lparr>refresh_var = show_int (refresh_interval app div 1000),
      temp_units_var = ''Celsius'', theme_var = ''clam'', dialog_open = True\<rparr>"

text \<open>The themes the dialog offers; \<^verbatim>\<open>theme_use\<close> of another name raises \<^verbatim>\<open>TclError\<close>.\<close>

definition theme_names :: "string list" where
  "theme_names = [''clam'', ''alt'', ''default'', ''classic'']"

text \<open>
  \<^verbatim>\<open>apply_preferences\<close>: the \<^verbatim>\<open>try\<close> block converts the interval, stores it, switches
  the theme and closes the dialog; \<^verbatim>\<open>except ValueError\<close> shows an error box. Any other
  exception leaves the method.
\<close>

definition apply_preferences ::
    "weather_app \<Rightarrow> preferences_dialog \<Rightarrow>
      (weather_app \<times> preferences_dialog) \<times> py_error option" where
  "apply_preferences app dlg =
     (case py_int (refresh_var dlg) of
        Inl e \<Rightarrow>
          if e = ValueError
          then ((app\<lparr>error_boxes := error_boxes app @
                    [Plain ''Please enter a valid refresh interval'']\<rparr>, dlg), None)
          else ((app, dlg), Some e)
      | Inr n \<Rightarrow>
          let new_interval = n * 1000;
              app1 = app\<lparr>refresh_interval := new_interval\<rparr>
          in if theme_var dlg \<in> set theme_names
             then ((app1\<lparr>theme := theme_var dlg\<rparr>, dlg\<lparr>dialog_open := False\<rparr>), None)
             else ((app1, dlg), Some TclError))"

section \<open>Fetching the latest reading\<close>

text \<open>
  \<^verbatim>\<open>get_current_weather_data\<close>: the row as a dict, or \<^verbatim>\<open>None\<close> when there is no row; a
  \<^verbatim>\<open>sqlite3.Error\<close> is caught, printed, and \<^verbatim>\<open>None\<close> is returned. The first component is
  what the call prints.
\<close>

definition get_current_weather_data ::
    "environment \<Rightarrow> string \<Rightarrow> string \<Rightarrow> string list \<times> weather_data option" where
  "get_current_weather_data env city country =
     (case latest_reading env city country of
        SqliteError e \<Rightarrow> ([''Database error: '' @ e], None)
      | NoRow \<Rightarrow> ([], None)
      | Row data \<Rightarrow> ([], Some data))"

text \<open>What the worker thread hands to the Tk main loop with \<^verbatim>\<open>root.after(0, ...)\<close>.\<close>

datatype callback = UpdateUI weather_data | UpdateStatus string | ShowError notice

text \<open>
  \<^verbatim>\<open>_load_data_background\<close> in two parts: reading and parsing \<^verbatim>\<open>self.current_city\<close>
  (\<^verbatim>\<open>None\<close> has no \<^verbatim>\<open>split\<close>), then the query and the choice of the callback
  (\<^verbatim>\<open>if current_data:\<close> is false for \<^verbatim>\<open>None\<close> and for an empty dict). The
  \<^verbatim>\<open>except Exception\<close> around both turns any exception into a \<^verbatim>\<open>show_error\<close> callback.
\<close>

definition load_query_args :: "weather_app \<Rightarrow> py_error + string \<times> string" where
  "load_query_args app =
     (case current_city app of
        None \<Rightarrow> Inl AttributeError
      | Some selector \<Rightarrow> city_and_country selector)"

definition load_dispatch ::
    "environment \<Rightarrow> string \<Rightarrow> string \<Rightarrow> string list \<times> callback" where
  "load_dispatch env city country =
     (case get_current_weather_data env city country of
        (printed, None) \<Rightarrow> (printed, UpdateStatus ''No data available for selected city'')
      | (printed, Some data) \<Rightarrow>
          if data \<noteq> [] then (printed, UpdateUI data)
          else (printed, UpdateStatus ''No data available for selected city''))"

text \<open>
  The \<^verbatim>\<open>try\<close> block of \<^verbatim>\<open>_load_data_background\<close>, which raises what the parse raises, and
  the whole method with its \<^verbatim>\<open>except Exception\<close>. Both give what was printed and the
  callback posted; \<open>Inl\<close> is an exception that leaves them.
\<close>

definition load_data_try ::
    "environment \<Rightarrow> weather_app \<Rightarrow> py_error + string list \<times> callback" where
  "load_data_try env app =
     err_bind (load_query_args app) (\<lambda>(city, country). Inr (load_dispatch env city country))"

definition load_data_background ::
    "environment \<Rightarrow> weather_app \<Rightarrow> py_error + string list \<times> callback" where
  "load_data_background env app =
     (case load_data_try env app of
        Inl e \<Rightarrow> Inr ([], ShowError (WithError ''Error loading data: '' e))
      | Inr posted \<Rightarrow> Inr posted)"

section \<open>Refresh, timers and the Tk main loop\<close>

text \<open>
  The running program: the application, the worker threads started by
  \<^verbatim>\<open>refresh_data\<close>, the callbacks posted with \<^verbatim>\<open>root.after(0, ...)\<close> and not yet run,
  the delays of the pending \<^verbatim>\<open>root.after(refresh_interval, start_auto_refresh)\<close>
  timers, and the lines printed. A worker has not yet read \<^verbatim>\<open>self.current_city\<close>
  (\<open>Spawned\<close>), waits for the database with the city and country it parsed
  (\<open>Querying\<close>), or has posted its callback (\<open>Finished\<close>).
\<close>

datatype worker = Spawned | Querying string string | Finished

record system =
  app :: weather_app
  workers :: "worker list"
  idle_callbacks :: "callback list"
  refresh_timers :: "int list"
  stdout :: "string list"

definition refresh_data :: "system \<Rightarrow> system" where
  "refresh_data s =
     (if current_city (app s) = None \<or> current_city (app s) = Some [] then s
      else s\<lparr>app := update_status (app s) ''Refreshing data...'',
             workers := workers s @ [Spawned]\<rparr>)"

definition on_city_changed :: "system \<Rightarrow> system" where
  "on_city_changed s =
     refresh_data (s\<lparr>app := (app s)\<lparr>current_city := Some (city_var (app s))\<rparr>\<rparr>)"

text \<open>
  \<^verbatim>\<open>start_auto_refresh\<close>: \<^verbatim>\<open>refresh_data\<close>, then
  \<^verbatim>\<open>root.after(self.refresh_interval, self.start_auto_refresh)\<close>, which arms a timer when
  Tcl accepts the interval as a delay and raises \<^verbatim>\<open>TclError\<close> otherwise, arming none.
\<close>

definition start_auto_refresh :: "environment \<Rightarrow> system \<Rightarrow> system \<times> py_error option" where
  "start_auto_refresh env s =
     (let s1 = refresh_data s
      in if accepts_delay env (refresh_interval (app s1))
         then (s1\<lparr>refresh_timers := refresh_timers s1 @ [refresh_interval (app s1)]\<rparr>, None)
         else (s1, Some TclError))"

text \<open>
  \<^verbatim>\<open>get_available_cities\<close> returns the selectors that the query builds as
  \<^verbatim>\<open>city || ', ' || country\<close>; a \<^verbatim>\<open>sqlite3.Error\<close> is shown and gives the empty list.
\<close>

definition get_available_cities :: "environment \<Rightarrow> weather_app \<Rightarrow> weather_app \<times> string list" where
  "get_available_cities env a =
     (case distinct_cities env of
        CitiesError e \<Rightarrow> (show_error a (Plain (''Database error: '' @ e)), [])
      | Cities rows \<Rightarrow> (a, map (\<lambda>(city, country). city @ '', '' @ country) rows))"

definition load_initial_data :: "environment \<Rightarrow> system \<Rightarrow> system" where
  "load_initial_data env s =
     (case get_available_cities env (app s) of
        (a, cities) \<Rightarrow>
          let a1 = a\<lparr>city_values := cities\<rparr>
          in if cities \<noteq> []
             then refresh_data
                    (s\<lparr>app := a1\<lparr>city_var := hd cities, current_city := Some (hd cities)\<rparr>\<rparr>)
             else s\<lparr>app := a1\<rparr>)"

text \<open>
  \<^verbatim>\<open>WeatherApp.__init__\<close> after the widgets exist: \<^verbatim>\<open>load_initial_data\<close>, then
  \<^verbatim>\<open>start_auto_refresh\<close>. The state is the one in which the constructor ends, also when
  it ends by the exception of \<^verbatim>\<open>start_auto_refresh\<close>.
\<close>

definition startup :: "environment \<Rightarrow> system" where
  "startup env =
     fst (start_auto_refresh env
       (load_initial_data env
          \<lparr>app = init_app, workers = [], idle_callbacks = [], refresh_timers = [],
           stdout = []\<rparr>))"

text \<open>
  What can happen next. The user picks a city in the combobox, presses Refresh, or applies
  a preferences dialog; a pending timer fires; a worker thread reads the current city; the
  database answers a waiting worker; the main loop runs the oldest posted callback. An
  event that is not possible in a state leaves it unchanged. An exception raised inside a
  Tk callback is reported by Tk and ends that callback only.
\<close>

datatype event =
    CitySelected string
  | RefreshClicked
  | PreferencesApplied preferences_dialog
  | TimerFired
  | WorkerReads nat
  | WorkerReturns nat
  | IdleCallback

definition worker_reads :: "system \<Rightarrow> nat \<Rightarrow> system" where
  "worker_reads s i =
     (if i < length (workers s) \<and> workers s ! i = Spawned then
        (case load_query_args (app s) of
           Inl e \<Rightarrow>
             s\<lparr>workers := (workers s)[i := Finished],
               idle_callbacks := idle_callbacks s @
                 [ShowError (WithError ''Error loading data: '' e)]\<rparr>
         | Inr (city, country) \<Rightarrow> s\<lparr>workers := (workers s)[i := Querying city country]\<rparr>)
      else s)"

definition worker_returns :: "environment \<Rightarrow> system \<Rightarrow> nat \<Rightarrow> system" where
  "worker_returns env s i =
     (if i < length (workers s) then
        (case workers s ! i of
           Querying city country \<Rightarrow>
             (case load_dispatch env city country of
                (printed, cb) \<Rightarrow>
                  s\<lparr>workers := (workers s)[i := Finished],
                    idle_callbacks := idle_callbacks s @ [cb],
                    stdout := stdout s @ printed\<rparr>)
         | Spawned \<Rightarrow> s
         | Finished \<Rightarrow> s)
      else s)"

definition run_callback :: "environment \<Rightarrow> weather_app \<Rightarrow> callback \<Rightarrow> weather_app" where
  "run_callback env a cb =
     (case cb of
        UpdateUI data \<Rightarrow> fst (update_ui_with_data env a data)
      | UpdateStatus msg \<Rightarrow> update_status a msg
      | ShowError msg \<Rightarrow> show_error a msg)"

definition step :: "environment \<Rightarrow> system \<Rightarrow> event \<Rightarrow> system" where
  "step env s ev =
     (case ev of
        CitySelected selector \<Rightarrow> on_city_changed (s\<lparr>app := (app s)\<lparr>city_var := selector\<rparr>\<rparr>)
      | RefreshClicked \<Rightarrow> refresh_data s
      | PreferencesApplied dlg \<Rightarrow> s\<lparr>app := fst (fst (apply_preferences (app s) dlg))\<rparr>
      | TimerFired \<Rightarrow>
          (case refresh_timers s of
             [] \<Rightarrow> s
           | t # ts \<Rightarrow> fst (start_auto_refresh env (s\<lparr>refresh_timers := ts\<rparr>)))
      | WorkerReads i \<Rightarrow> worker_reads s i
      | WorkerReturns i \<Rightarrow> worker_returns env s i
      | IdleCallback \<Rightarrow>
          (case idle_callbacks s of
             [] \<Rightarrow> s
           | cb # cbs \<Rightarrow> s\<lparr>idle_callbacks := cbs, app := run_callback env (app s) cb\<rparr>))"

definition run :: "environment \<Rightarrow> system \<Rightarrow> event list \<Rightarrow> system" where
  "run env s evs = foldl (step env) s evs"

text \<open>The refresh cycles in flight: the workers that have not yet posted their callback.\<close>

definition in_flight :: "system \<Rightarrow> nat" where
  "in_flight s = length (filter (\<lambda>w. w \<noteq> Finished) (workers s))"

section \<open>Example inputs\<close>

text \<open>The readings of the examples, as the dict literals of the specification.\<close>

definition hot_reading :: weather_data where
  "hot_reading =
     [(''temperature'', FloatV 36), (''wind_speed'', IntV 5), (''pressure'', IntV 1010),
      (''weather_severity'', IntV 10)]"

text \<open>A hot row whose \<^verbatim>\<open>wind_speed\<close> column is NULL.\<close>

definition null_wind_reading :: weather_data where
  "null_wind_reading =
     [(''temperature'', FloatV 36), (''wind_speed'', NoneV), (''pressure'', IntV 1010),
      (''weather_severity'', IntV 10)]"

definition stormy_reading :: weather_data where
  "stormy_reading =
     [(''temperature'', IntV 20), (''wind_speed'', IntV 20), (''pressure'', IntV 970),
      (''weather_severity'', IntV 80)]"

text \<open>
  Two rows of \<^verbatim>\<open>processed_weather_data\<close>, a database that holds them, a database whose
  latest-reading query fails, and one that has no row for any city. The rows hold floats
  of at most one decimal, which \<^verbatim>\<open>str\<close> prints as \<^verbatim>\<open>:.1f\<close> does. Tcl accepts a delay
  of magnitude below \<open>2 ^ 64\<close>.
\<close>

definition paris_reading :: weather_data where
  "paris_reading =
     [(''city'', StrV ''Paris''), (''country'', StrV ''France''),
      (''timestamp'', StrV ''2024-05-01 12:00:00''), (''temperature'', FloatV 20),
      (''feels_like'', FloatV 19), (''humidity'', IntV 50), (''pressure'', FloatV 1013),
      (''wind_speed'', FloatV 3), (''weather_description'', StrV ''clear sky''),
      (''comfort_index'', FloatV 80), (''heat_index_c'', FloatV 20),
      (''wind_chill_c'', FloatV 20), (''weather_severity'', FloatV 10)]"

definition tokyo_reading :: weather_data where
  "tokyo_reading =
     [(''city'', StrV ''Tokyo''), (''country'', StrV ''Japan''),
      (''timestamp'', StrV ''2024-05-01 12:00:00''), (''temperature'', FloatV 36),
      (''feels_like'', FloatV 36), (''humidity'', IntV 50), (''pressure'', FloatV 1013),
      (''wind_speed'', FloatV 3), (''weather_description'', StrV ''clear sky''),
      (''comfort_index'', FloatV 20), (''heat_index_c'', FloatV 36),
      (''wind_chill_c'', FloatV 36), (''weather_severity'', FloatV 10)]"

definition example_env :: environment where
  "example_env =
     \<lparr>latest_reading = (\<lambda>city country.
        if city = ''Paris'' \<and> country = ''France'' then Row paris_reading
        else if city = ''Tokyo'' \<and> country = ''Japan'' then Row tokyo_reading
        else NoRow),
      distinct_cities = Cities [(''Paris'', ''France''), (''Tokyo'', ''Japan'')],
      clock = ''12:00:05'',
      float_str = format_fixed 1,
      accepts_delay = (\<lambda>ms. \<bar>ms\<bar> < 2 ^ 64)\<rparr>"

definition failing_env :: environment where
  "failing_env =
     example_env\<lparr>latest_reading := (\<lambda>city country. SqliteError ''database is locked'')\<rparr>"

definition empty_env :: environment where
  "empty_env = example_env\<lparr>latest_reading := (\<lambda>city country. NoRow)\<rparr>"

text \<open>The application with Paris selected, and a preferences dialog set to Fahrenheit.\<close>

definition paris_app :: weather_app where
  "paris_app = init_app\<lparr>city_var := ''Paris, France'', current_city := Some ''Paris, France''\<rparr>"

definition fahrenheit_dialog :: preferences_dialog where
  "fahrenheit_dialog =
     \<lparr>refresh_var = ''30'', temp_units_var = ''Fahrenheit'', theme_var = ''clam'',
      dialog_open = True\<rparr>"

text \<open>
  Paris is selected at startup; its first worker reads the selection and waits for the
  database. The user selects Tokyo; Tokyo's worker reads, the database answers it and its
  response is applied. Then the database answers the worker of Paris and that response
  is applied.
\<close>

definition late_paris_response :: "event list" where
  "late_paris_response =
     [WorkerReads 0, CitySelected ''Tokyo, Japan'', WorkerReads 2, WorkerReturns 2,
      IdleCallback, WorkerReturns 0, IdleCallback]"

text \<open>A preferences dialog whose interval, in milliseconds, is beyond 64 bits.\<close>

definition oversized_dialog :: preferences_dialog where
  "oversized_dialog =
     \<lparr>refresh_var = ''99999999999999999'', temp_units_var = ''Celsius'',
      theme_var = ''clam'', dialog_open = True\<rparr>"

section \<open>Alerts: what each block of \<^verbatim>\<open>check_weather_alerts\<close> emits\<close>

text \<open>The conversion of an \<^verbatim>\<open>int\<close> to a double is exact below \<open>2 ^ 53\<close>.\<close>

lemma bit_length_le: "n < 2 ^ k \<Longrightarrow> bit_length n \<le> k"
proof (induction k arbitrary: n)
  case 0
  then show ?case by (simp add: bit_length.simps)
next
  case (Suc k)
  show ?case
  proof (cases "n = 0")
    case True
    then show ?thesis by (simp add: bit_length.simps)
  next
    case False
    have "n div 2 < 2 ^ k"
      using Suc.prems by auto
    then have "bit_length (n div 2) \<le> k"
      by (rule Suc.IH)
    then show ?thesis
      using False by (subst bit_length.simps) simp
  qed
qed

lemma round_to_double_small: "n < 2 ^ 53 \<Longrightarrow> round_to_double n = n"
  by (simp add: round_to_double_def bit_length_le)

lemma float_of_int_small:
  assumes "\<bar>i\<bar> < 2 ^ 53"
  shows "float_of_int i = Inr (of_int i)"
proof -
  have small: "nat \<bar>i\<bar> < 2 ^ 53"
    using assms by (simp add: nat_less_iff)
  have "(2::nat) ^ 53 < 2 ^ 1024"
    by (rule power_strict_increasing) simp_all
  then have "\<not> (2::nat) ^ 1024 \<le> nat \<bar>i\<bar>"
    using small by linarith
  then show ?thesis
    using round_to_double_small [OF small]
    by (simp add: float_of_int_def Let_def)
qed

lemma format_f_simps [simp]:
  "format_f p (FloatV q) = Inr (format_fixed p q)"
  "format_f p (StrV s) = Inl ValueError"
  "format_f p NoneV = Inl TypeError"
  by (simp_all add: format_f_def err_bind_def)

lemma format_f_small_int:
  "\<bar>i\<bar> < 2 ^ 53 \<Longrightarrow> format_f p (IntV i) = Inr (format_fixed p (of_int i))"
  by (simp add: format_f_def err_bind_def float_of_int_small)

lemma format_f_operand:
  "format_operand v = Inr x \<Longrightarrow> format_f p v = Inr (format_fixed p x)"
  by (simp add: format_f_def err_bind_def)

lemma format_operand_float: "format_operand v = Inr x \<Longrightarrow> \<exists>t. num_of v = Some t"
  by (cases v) auto

text \<open>A number that cannot be formatted is an \<^verbatim>\<open>int\<close> beyond the doubles.\<close>

lemma format_operand_error:
  assumes "num_of v = Some t" and "format_operand v = Inl e"
  shows "e = OverflowError"
  using assms by (cases v) (auto simp: float_of_int_def Let_def split: if_splits)

lemma format_f_error:
  assumes "num_of v = Some t" and "format_f p v = Inl e"
  shows "e = OverflowError"
  using assms format_operand_error [of v t]
  by (auto simp: format_f_def err_bind_def split: sum.splits)

lemma temperature_alerts_types:
  "temperature_alerts th wd = Inr as \<Longrightarrow> \<forall>a\<in>set as. alert_type a = ''temperature''"
  by (auto simp: temperature_alerts_def err_bind_def Let_def high_temperature_alert_def
      low_temperature_alert_def split: sum.splits if_splits)

lemma wind_alerts_types:
  "wind_alerts th wd = Inr as \<Longrightarrow> \<forall>a\<in>set as. alert_type a = ''wind''"
  by (auto simp: wind_alerts_def err_bind_def Let_def high_wind_alert_def
      split: sum.splits if_splits)

lemma pressure_alerts_types:
  "pressure_alerts th wd = Inr as \<Longrightarrow> \<forall>a\<in>set as. alert_type a = ''pressure''"
  by (auto simp: pressure_alerts_def err_bind_def Let_def low_pressure_alert_def
      split: sum.splits if_splits)

lemma severity_alerts_types:
  "severity_alerts th wd = Inr as \<Longrightarrow> \<forall>a\<in>set as. alert_type a = ''severity''"
  by (auto simp: severity_alerts_def err_bind_def Let_def severe_weather_alert_def
      split: sum.splits if_splits)

text \<open>A block raises \<^verbatim>\<open>TypeError\<close>, from the comparison, or \<^verbatim>\<open>OverflowError\<close>, from the format.\<close>

lemma wind_alerts_error:
  assumes "wind_alerts th wd = Inl e"
  shows "e = TypeError \<or> e = OverflowError"
proof (cases "num_of (dict_get wd ''wind_speed'' (IntV 0))")
  case None
  then show ?thesis
    using assms by (simp add: wind_alerts_def err_bind_def py_gt_def)
next
  case (Some x)
  then show ?thesis
    using assms format_f_error [OF Some]
    by (auto simp: wind_alerts_def err_bind_def py_gt_def split: if_splits sum.splits)
qed

lemma pressure_alerts_error:
  assumes "pressure_alerts th wd = Inl e"
  shows "e = TypeError \<or> e = OverflowError"
proof (cases "num_of (dict_get wd ''pressure'' (IntV 1013))")
  case None
  then show ?thesis
    using assms by (simp add: pressure_alerts_def err_bind_def py_lt_def)
next
  case (Some x)
  then show ?thesis
    using assms format_f_error [OF Some]
    by (auto simp: pressure_alerts_def err_bind_def py_lt_def split: if_splits sum.splits)
qed

lemma severity_alerts_error:
  assumes "severity_alerts th wd = Inl e"
  shows "e = TypeError \<or> e = OverflowError"
proof (cases "num_of (dict_get wd ''weather_severity'' (IntV 0))")
  case None
  then show ?thesis
    using assms by (simp add: severity_alerts_def err_bind_def py_gt_def)
next
  case (Some x)
  then show ?thesis
    using assms format_f_error [OF Some]
    by (auto simp: severity_alerts_def err_bind_def py_gt_def split: if_splits sum.splits)
qed

text \<open>A block returns when its field is absent or holds a number that can be formatted.\<close>

lemma dict_get_formattable:
  assumes "formattable_or_absent wd k" and "\<bar>d\<bar> < 2 ^ 53"
  shows "\<exists>x t. format_operand (dict_get wd k (IntV d)) = Inr x \<and>
           num_of (dict_get wd k (IntV d)) = Some t"
proof (cases "map_of wd k")
  case None
  then show ?thesis
    using assms(2) by (simp add: dict_get_def float_of_int_small)
next
  case (Some v)
  then obtain x where "format_operand v = Inr x"
    using assms(1) by (auto simp: formattable_or_absent_def split: sum.splits)
  then show ?thesis
    using Some format_operand_float [of v x] by (simp add: dict_get_def)
qed

lemma wind_alerts_returns:
  assumes "formattable_or_absent wd ''wind_speed''"
  shows "\<exists>as. wind_alerts th wd = Inr as"
proof -
  obtain x t where "format_operand (dict_get wd ''wind_speed'' (IntV 0)) = Inr x"
    and "num_of (dict_get wd ''wind_speed'' (IntV 0)) = Some t"
    using dict_get_formattable [OF assms, of 0] by auto
  then show ?thesis
    by (simp add: wind_alerts_def err_bind_def py_gt_def format_f_operand)
qed

lemma pressure_alerts_returns:
  assumes "formattable_or_absent wd ''pressure''"
  shows "\<exists>as. pressure_alerts th wd = Inr as"
proof -
  obtain x t where "format_operand (dict_get wd ''pressure'' (IntV 1013)) = Inr x"
    and "num_of (dict_get wd ''pressure'' (IntV 1013)) = Some t"
    using dict_get_formattable [OF assms, of 1013] by auto
  then show ?thesis
    by (simp add: pressure_alerts_def err_bind_def py_lt_def format_f_operand)
qed

lemma severity_alerts_returns:
  assumes "formattable_or_absent wd ''weather_severity''"
  shows "\<exists>as. severity_alerts th wd = Inr as"
proof -
  obtain x t where "format_operand (dict_get wd ''weather_severity'' (IntV 0)) = Inr x"
    and "num_of (dict_get wd ''weather_severity'' (IntV 0)) = Some t"
    using dict_get_formattable [OF assms, of 0] by auto
  then show ?thesis
    by (simp add: severity_alerts_def err_bind_def py_gt_def format_f_operand)
qed

text \<open>
  Above the threshold the temperature block takes its first branch: it formats the
  temperature and emits the High Temperature Alert, and the \<^verbatim>\<open>elif\<close> is not reached.
\<close>

lemma temperature_alerts_high:
  assumes "map_of wd ''temperature'' = Some v" and "num_of v = Some t"
    and "high_temperature th < t"
  shows "temperature_alerts th wd =
           err_bind (format_f 1 v) (\<lambda>shown. Inr [high_temperature_alert shown])"
  using assms
  by (simp add: temperature_alerts_def dict_get_def err_bind_def py_gt_def)

lemma other_blocks_no_temperature:
  assumes "wind_alerts th wd = Inr a2" and "pressure_alerts th wd = Inr a3"
    and "severity_alerts th wd = Inr a4"
  shows "filter (\<lambda>b. alert_type b = ''temperature'') (a2 @ a3 @ a4) = []"
    and "filter (\<lambda>b. title b = ''Low Temperature Alert'') (a2 @ a3 @ a4) = []"
proof -
  show "filter (\<lambda>b. alert_type b = ''temperature'') (a2 @ a3 @ a4) = []"
    using wind_alerts_types [OF assms(1)] pressure_alerts_types [OF assms(2)]
      severity_alerts_types [OF assms(3)]
    by (auto simp: filter_empty_conv)
  have "\<forall>b\<in>set (a2 @ a3 @ a4). title b \<noteq> ''Low Temperature Alert''"
    using assms
    by (auto simp: wind_alerts_def pressure_alerts_def severity_alerts_def err_bind_def
        Let_def high_wind_alert_def low_pressure_alert_def severe_weather_alert_def
        split: sum.splits if_splits)
  then show "filter (\<lambda>b. title b = ''Low Temperature Alert'') (a2 @ a3 @ a4) = []"
    by (auto simp: filter_empty_conv)
qed

lemma check_weather_alerts_blocks:
  assumes "temperature_alerts (alert_thresholds mgr) wd = Inr a1"
    and "wind_alerts (alert_thresholds mgr) wd = Inr a2"
    and "pressure_alerts (alert_thresholds mgr) wd = Inr a3"
    and "severity_alerts (alert_thresholds mgr) wd = Inr a4"
  shows "check_weather_alerts mgr wd =
           Inr (a1 @ a2 @ a3 @ a4,
                if a1 @ a2 @ a3 @ a4 = [] then mgr\<lparr>active_alerts := []\<rparr>
                else mgr\<lparr>active_alerts := a1 @ a2 @ a3 @ a4,
                         alert_windows := alert_windows mgr @ [a1 @ a2 @ a3 @ a4]\<rparr>)"
  using assms
  by (simp add: check_weather_alerts_def err_bind_def Let_def display_alerts_def)

lemma check_weather_alerts_InrD:
  assumes "check_weather_alerts mgr wd = Inr (alerts, mgr')"
  shows "\<exists>a1 a2 a3 a4. temperature_alerts (alert_thresholds mgr) wd = Inr a1 \<and>
           wind_alerts (alert_thresholds mgr) wd = Inr a2 \<and>
           pressure_alerts (alert_thresholds mgr) wd = Inr a3 \<and>
           severity_alerts (alert_thresholds mgr) wd = Inr a4 \<and>
           alerts = a1 @ a2 @ a3 @ a4"
  using assms
  by (auto simp: check_weather_alerts_def err_bind_def Let_def split: sum.splits)

text \<open>The decimal texts that the examples below show.\<close>

lemma format_fixed_examples:
  "format_fixed (Suc 0) 36 = ''36.0''"
  "format_fixed (Suc 0) 20 = ''20.0''"
  "format_fixed (Suc 0) 970 = ''970.0''"
  "format_fixed (Suc 0) 1013 = ''1013.0''"
  "format_fixed (Suc 0) 68 = ''68.0''"
  "format_fixed 0 80 = ''80''"
  by (simp_all add: format_fixed_def round_half_even_def show_nat.simps digit_char_def
      Let_def)

lemma check_weather_alerts_InlD:
  assumes "check_weather_alerts mgr wd = Inl e"
  shows "temperature_alerts (alert_thresholds mgr) wd = Inl e \<or>
         wind_alerts (alert_thresholds mgr) wd = Inl e \<or>
         pressure_alerts (alert_thresholds mgr) wd = Inl e \<or>
         severity_alerts (alert_thresholds mgr) wd = Inl e"
  using assms
  by (auto simp: check_weather_alerts_def err_bind_def Let_def split: sum.splits)

lemma hot_reading_blocks:
  "temperature_alerts default_thresholds hot_reading = Inr [high_temperature_alert ''36.0'']"
  "wind_alerts default_thresholds hot_reading = Inr []"
  "pressure_alerts default_thresholds hot_reading = Inr []"
  "severity_alerts default_thresholds hot_reading = Inr []"
  by (simp_all add: temperature_alerts_def wind_alerts_def pressure_alerts_def
      severity_alerts_def hot_reading_def dict_get_def py_gt_def py_lt_def err_bind_def
      default_thresholds_def format_fixed_examples format_f_small_int)

lemma stormy_reading_blocks:
  "temperature_alerts default_thresholds stormy_reading = Inr []"
  "wind_alerts default_thresholds stormy_reading = Inr [high_wind_alert ''20.0'']"
  "pressure_alerts default_thresholds stormy_reading = Inr [low_pressure_alert ''970.0'']"
  "severity_alerts default_thresholds stormy_reading = Inr [severe_weather_alert ''80'']"
  by (simp_all add: temperature_alerts_def wind_alerts_def pressure_alerts_def
      severity_alerts_def stormy_reading_def dict_get_def py_gt_def py_lt_def err_bind_def
      default_thresholds_def format_fixed_examples format_f_small_int)

lemma empty_reading_blocks:
  "temperature_alerts default_thresholds [] = Inr []"
  "wind_alerts default_thresholds [] = Inr []"
  "pressure_alerts default_thresholds [] = Inr []"
  "severity_alerts default_thresholds [] = Inr []"
  by (simp_all add: temperature_alerts_def wind_alerts_def pressure_alerts_def
      severity_alerts_def dict_get_def py_gt_def py_lt_def err_bind_def
      default_thresholds_def)

lemma init_alerts_manager_thresholds [simp]:
  "alert_thresholds init_alerts_manager = default_thresholds"
  by (simp add: init_alerts_manager_def)

text \<open>
  Beyond 53 bits the conversion rounds: \<open>2 ^ 53 + 1\<close> lies between two doubles and goes to
  the even one, so \<^verbatim>\<open>:.1f\<close> shows a number that is not the integer.
\<close>

lemma round_to_double_example: "round_to_double 9007199254740993 = 9007199254740992"
  by (simp add: round_to_double_def bit_length.simps Let_def)

lemma format_f_beyond_53_bits:
  "format_f 1 (IntV 9007199254740993) = Inr ''9007199254740992.0''"
  by (simp add: format_f_def err_bind_def float_of_int_def round_to_double_example
      format_fixed_def round_half_even_def show_nat.simps digit_char_def Let_def)

text \<open>An integer of \<open>2 ^ 1024\<close> or more has no double.\<close>

lemma bit_length_upper: "n < 2 ^ bit_length n"
proof (induction n rule: bit_length.induct)
  case (1 n)
  show ?case
  proof (cases "n = 0")
    case True
    then show ?thesis by simp
  next
    case False
    then have "n div 2 < 2 ^ bit_length (n div 2)"
      by (rule 1)
    then have "n < 2 * 2 ^ bit_length (n div 2)"
      by linarith
    then show ?thesis
      using False by (subst bit_length.simps) simp
  qed
qed

lemma bit_length_lower: "0 < n \<Longrightarrow> 2 ^ (bit_length n - 1) \<le> n"
proof (induction n rule: bit_length.induct)
  case (1 n)
  show ?case
  proof (cases "n div 2 = 0")
    case True
    then have "bit_length n = 1"
      using "1.prems" by (simp add: bit_length.simps)
    then show ?thesis
      using "1.prems" by simp
  next
    case False
    then have "2 ^ (bit_length (n div 2) - 1) \<le> n div 2"
      using "1.IH" "1.prems" by simp
    moreover have "bit_length n = Suc (bit_length (n div 2))"
      using "1.prems" by (subst bit_length.simps) simp
    moreover have "0 < bit_length (n div 2)"
      using False by (subst bit_length.simps) simp
    ultimately have "2 * 2 ^ (bit_length (n div 2) - 1) \<le> n"
      by linarith
    moreover have "(2::nat) * 2 ^ (bit_length (n div 2) - 1) = 2 ^ bit_length (n div 2)"
      using \<open>0 < bit_length (n div 2)\<close> by (cases "bit_length (n div 2)") simp_all
    ultimately show ?thesis
      using \<open>bit_length n = Suc (bit_length (n div 2))\<close> by simp
  qed
qed

lemma round_to_double_lower:
  assumes "0 < n"
  shows "2 ^ (bit_length n - 1) \<le> round_to_double n"
proof (cases "bit_length n \<le> 53")
  case True
  then show ?thesis
    using bit_length_lower [OF assms] by (simp add: round_to_double_def)
next
  case False
  define d :: nat where "d = 2 ^ (bit_length n - 53)"
  define q where "q = n div d"
  have "bit_length n - 1 = 52 + (bit_length n - 53)"
    using False by simp
  then have split: "(2::nat) ^ (bit_length n - 1) = 2 ^ 52 * d"
    unfolding d_def by (simp only: power_add)
  have "2 ^ 52 * d \<le> n"
    using bit_length_lower [OF assms] split by simp
  then have "2 ^ 52 \<le> q"
    unfolding q_def by (simp add: d_def less_eq_div_iff_mult_less_eq)
  then have low: "2 ^ 52 * d \<le> q * d" and low1: "2 ^ 52 * d \<le> (q + 1) * d"
    by (simp_all add: mult_le_mono1)
  have "round_to_double n = q * d \<or> round_to_double n = (q + 1) * d"
    using False by (simp add: round_to_double_def Let_def d_def q_def)
  then show ?thesis
    using low low1 split by auto
qed

lemma float_of_int_overflow:
  assumes "2 ^ 1024 \<le> \<bar>i\<bar>"
  shows "float_of_int i = Inl OverflowError"
proof -
  let ?n = "nat \<bar>i\<bar>"
  have big: "2 ^ 1024 \<le> ?n"
    using assms by (simp add: le_nat_iff)
  then have pos: "0 < ?n"
    by (meson less_le_trans zero_less_numeral zero_less_power)
  have above: "(2::nat) ^ 1024 < 2 ^ bit_length ?n"
    using big bit_length_upper [of ?n] by linarith
  have "1024 < bit_length ?n"
  proof (rule power_less_imp_less_exp)
    show "(1::nat) < 2" by simp
    show "(2::nat) ^ 1024 < 2 ^ bit_length ?n" by (rule above)
  qed
  then have "(2::nat) ^ 1024 \<le> 2 ^ (bit_length ?n - 1)"
    by (intro power_increasing) simp_all
  then have "2 ^ 1024 \<le> round_to_double ?n"
    using round_to_double_lower [OF pos] by linarith
  then show ?thesis
    by (simp add: float_of_int_def Let_def)
qed

lemma huge_temperature_raises_overflow:
  "check_weather_alerts init_alerts_manager [(''temperature'', IntV (2 ^ 1024))] =
     Inl OverflowError"
proof -
  have "format_f 1 (IntV (2 ^ 1024)) = Inl OverflowError"
    by (simp add: format_f_def err_bind_def float_of_int_overflow)
  moreover have "(35::rat) < 2 ^ 1024"
  proof -
    have "(2::rat) ^ 6 \<le> 2 ^ 1024"
      by (rule power_increasing) simp_all
    then show ?thesis by simp
  qed
  ultimately show ?thesis
    by (simp add: check_weather_alerts_def temperature_alerts_def dict_get_def py_gt_def
        err_bind_def default_thresholds_def Let_def)
qed

text \<open>
  A hot row whose \<^verbatim>\<open>wind_speed\<close> is NULL: the temperature is above the threshold, the
  comparison of \<^verbatim>\<open>None\<close> with the wind threshold raises \<^verbatim>\<open>TypeError\<close>, and
  \<^verbatim>\<open>check_weather_alerts\<close> returns no alert at all. So the claim of C1 as stated, for
  every reading, fails.
\<close>

theorem null_field_raises_type_error:
  "map_of null_wind_reading ''temperature'' = Some (FloatV 36) \<and>
   high_temperature (alert_thresholds init_alerts_manager) < 36 \<and>
   check_weather_alerts init_alerts_manager null_wind_reading = Inl TypeError"
  by (simp add: null_wind_reading_def default_thresholds_def check_weather_alerts_def
      temperature_alerts_def wind_alerts_def dict_get_def py_gt_def py_lt_def err_bind_def
      Let_def)

text \<open>
  C1, amended. A reading whose temperature is a number above the \<open>high_temperature\<close>
  threshold. Either \<^verbatim>\<open>check_weather_alerts\<close> raises \<^verbatim>\<open>TypeError\<close> or \<^verbatim>\<open>OverflowError\<close>
  and returns no alert; or it returns, and then exactly one of the returned alerts has
  type temperature: the High Temperature Alert, of severity warning, showing to one
  decimal the temperature as \<^verbatim>\<open>:.1f\<close> reads it, and the Low Temperature Alert is not
  among the alerts. It returns whenever each of the four fields it reads is absent or
  holds a number that can be formatted.
\<close>

theorem high_temperature_one_alert:
  assumes temp: "map_of weather_data ''temperature'' = Some v" "num_of v = Some t"
    and high: "high_temperature (alert_thresholds mgr) < t"
  shows "((\<exists>e. check_weather_alerts mgr weather_data = Inl e \<and>
              (e = TypeError \<or> e = OverflowError)) \<or>
          (\<exists>alerts mgr' a x. check_weather_alerts mgr weather_data = Inr (alerts, mgr') \<and>
              filter (\<lambda>b. alert_type b = ''temperature'') alerts = [a] \<and>
              title a = ''High Temperature Alert'' \<and> severity a = ''warning'' \<and>
              format_operand v = Inr x \<and>
              message a = ''Temperature is very high: '' @ format_fixed 1 x @ degC \<and>
              filter (\<lambda>b. title b = ''Low Temperature Alert'') alerts = [])) \<and>
         ((\<forall>k\<in>set [''temperature'', ''wind_speed'', ''pressure'', ''weather_severity''].
              formattable_or_absent weather_data k) \<longrightarrow>
          (\<exists>alerts mgr'. check_weather_alerts mgr weather_data = Inr (alerts, mgr')))"
proof -
  let ?th = "alert_thresholds mgr"
  let ?run = "check_weather_alerts mgr weather_data"
  let ?raises = "\<exists>e. ?run = Inl e \<and> (e = TypeError \<or> e = OverflowError)"
  have block: "temperature_alerts ?th weather_data =
      err_bind (format_f 1 v) (\<lambda>shown. Inr [high_temperature_alert shown])"
    using temp high by (rule temperature_alerts_high)
  have errors: ?raises if "?run = Inl e" for e
  proof -
    have "temperature_alerts ?th weather_data = Inl e \<Longrightarrow> e = OverflowError"
      using block format_f_error [OF temp(2), of 1]
      by (auto simp: err_bind_def split: sum.splits)
    then show ?thesis
      using check_weather_alerts_InlD [OF that] wind_alerts_error [of ?th weather_data e]
        pressure_alerts_error [of ?th weather_data e]
        severity_alerts_error [of ?th weather_data e] that
      by blast
  qed
  have one: "\<exists>a x. filter (\<lambda>b. alert_type b = ''temperature'') alerts = [a] \<and>
      title a = ''High Temperature Alert'' \<and> severity a = ''warning'' \<and>
      format_operand v = Inr x \<and>
      message a = ''Temperature is very high: '' @ format_fixed 1 x @ degC \<and>
      filter (\<lambda>b. title b = ''Low Temperature Alert'') alerts = []"
    if run: "?run = Inr (alerts, mgr')" for alerts mgr'
  proof -
    from check_weather_alerts_InrD [OF run] obtain a1 a2 a3 a4
      where a1: "temperature_alerts ?th weather_data = Inr a1"
        and a2: "wind_alerts ?th weather_data = Inr a2"
        and a3: "pressure_alerts ?th weather_data = Inr a3"
        and a4: "severity_alerts ?th weather_data = Inr a4"
        and alerts: "alerts = a1 @ a2 @ a3 @ a4"
      by blast
    obtain x where x: "format_operand v = Inr x"
      and hot: "a1 = [high_temperature_alert (format_fixed 1 x)]"
      using a1 block
      by (auto simp: format_f_def err_bind_def split: sum.splits)
    have "filter (\<lambda>b. alert_type b = ''temperature'') alerts =
        [high_temperature_alert (format_fixed 1 x)]"
      using other_blocks_no_temperature(1) [OF a2 a3 a4] alerts hot
      by (simp add: high_temperature_alert_def)
    moreover have "filter (\<lambda>b. title b = ''Low Temperature Alert'') alerts = []"
      using other_blocks_no_temperature(2) [OF a2 a3 a4] alerts hot
      by (simp add: high_temperature_alert_def)
    ultimately show ?thesis
      using x by (simp add: high_temperature_alert_def)
  qed
  have dichotomy: "?raises \<or>
      (\<exists>alerts mgr' a x. ?run = Inr (alerts, mgr') \<and>
          filter (\<lambda>b. alert_type b = ''temperature'') alerts = [a] \<and>
          title a = ''High Temperature Alert'' \<and> severity a = ''warning'' \<and>
          format_operand v = Inr x \<and>
          message a = ''Temperature is very high: '' @ format_fixed 1 x @ degC \<and>
          filter (\<lambda>b. title b = ''Low Temperature Alert'') alerts = [])"
  proof (cases ?run)
    case (Inl e)
    then show ?thesis using errors by blast
  next
    case (Inr r)
    then obtain alerts mgr' where "?run = Inr (alerts, mgr')"
      by (cases r) simp
    then show ?thesis using one by blast
  qed
  have returns: "\<exists>alerts mgr'. ?run = Inr (alerts, mgr')"
    if ok: "\<forall>k\<in>set [''temperature'', ''wind_speed'', ''pressure'', ''weather_severity''].
      formattable_or_absent weather_data k"
  proof -
    obtain x where "format_operand v = Inr x"
      using ok temp(1) by (auto simp: formattable_or_absent_def split: sum.splits)
    then have a1: "temperature_alerts ?th weather_data =
        Inr [high_temperature_alert (format_fixed 1 x)]"
      using block by (simp add: format_f_operand err_bind_def)
    obtain a2 where a2: "wind_alerts ?th weather_data = Inr a2"
      using wind_alerts_returns [of weather_data ?th] ok by auto
    obtain a3 where a3: "pressure_alerts ?th weather_data = Inr a3"
      using pressure_alerts_returns [of weather_data ?th] ok by auto
    obtain a4 where a4: "severity_alerts ?th weather_data = Inr a4"
      using severity_alerts_returns [of weather_data ?th] ok by auto
    show ?thesis
      using check_weather_alerts_blocks [OF a1 a2 a3 a4] by blast
  qed
  show ?thesis
    using dichotomy returns by blast
qed

theorem high_temperature_one_alert_witness:
  "map_of hot_reading ''temperature'' = Some (FloatV 36) \<and>
   num_of (FloatV 36) = Some 36 \<and>
   high_temperature (alert_thresholds init_alerts_manager) < 36 \<and>
   formattable_or_absent hot_reading ''temperature'' \<and>
   formattable_or_absent hot_reading ''wind_speed'' \<and>
   formattable_or_absent hot_reading ''pressure'' \<and>
   formattable_or_absent hot_reading ''weather_severity'' \<and>
   (\<exists>alerts mgr' a. check_weather_alerts init_alerts_manager hot_reading = Inr (alerts, mgr') \<and>
     filter (\<lambda>b. alert_type b = ''temperature'') alerts = [a] \<and>
     title a = ''High Temperature Alert'' \<and> severity a = ''warning'' \<and>
     message a = ''Temperature is very high: '' @ format_fixed 1 36 @ degC \<and>
     filter (\<lambda>b. title b = ''Low Temperature Alert'') alerts = [])"
proof -
  have fields: "map_of hot_reading ''temperature'' = Some (FloatV 36)"
    "high_temperature (alert_thresholds init_alerts_manager) < 36"
    "formattable_or_absent hot_reading ''temperature''"
    "formattable_or_absent hot_reading ''wind_speed''"
    "formattable_or_absent hot_reading ''pressure''"
    "formattable_or_absent hot_reading ''weather_severity''"
    by (simp_all add: hot_reading_def default_thresholds_def formattable_or_absent_def
        float_of_int_small)
  show ?thesis
    using high_temperature_one_alert [of hot_reading "FloatV 36" 36 init_alerts_manager]
      fields
    by auto
qed

text \<open>
  C2. The reading \<^verbatim>\<open>{temperature: 20, wind_speed: 20, pressure: 970, weather_severity: 80}\<close>
  under the default thresholds gives exactly three alerts, in the order wind, pressure,
  severity.
\<close>

theorem stormy_reading_three_alerts:
  "check_weather_alerts init_alerts_manager stormy_reading =
     Inr ([high_wind_alert ''20.0'', low_pressure_alert ''970.0'', severe_weather_alert ''80''],
          init_alerts_manager
            \<lparr>active_alerts :=
               [high_wind_alert ''20.0'', low_pressure_alert ''970.0'',
                severe_weather_alert ''80''],
             alert_windows :=
               [[high_wind_alert ''20.0'', low_pressure_alert ''970.0'',
                 severe_weather_alert ''80'']]\<rparr>) \<and>
   map alert_type
     [high_wind_alert ''20.0'', low_pressure_alert ''970.0'', severe_weather_alert ''80''] =
     [''wind'', ''pressure'', ''severity'']"
proof -
  have "alert_windows init_alerts_manager = []"
    by (simp add: init_alerts_manager_def)
  then show ?thesis
    using check_weather_alerts_blocks
      [of init_alerts_manager stormy_reading "[]" "[high_wind_alert ''20.0'']"
        "[low_pressure_alert ''970.0'']" "[severe_weather_alert ''80'']"]
    by (simp add: stormy_reading_blocks high_wind_alert_def low_pressure_alert_def
        severe_weather_alert_def)
qed

text \<open>
  C3. The reading \<^verbatim>\<open>{temperature: 36.0, wind_speed: 5, pressure: 1010, weather_severity: 10}\<close>
  under the default thresholds gives exactly one alert: the High Temperature Alert, of
  severity warning, and its message contains \<^verbatim>\<open>36.0\<close>.
\<close>

theorem hot_reading_one_alert:
  "check_weather_alerts init_alerts_manager hot_reading =
     Inr ([high_temperature_alert ''36.0''],
          init_alerts_manager
            \<lparr>active_alerts := [high_temperature_alert ''36.0''],
             alert_windows := [[high_temperature_alert ''36.0'']]\<rparr>) \<and>
   title (high_temperature_alert ''36.0'') = ''High Temperature Alert'' \<and>
   alert_type (high_temperature_alert ''36.0'') = ''temperature'' \<and>
   severity (high_temperature_alert ''36.0'') = ''warning'' \<and>
   message (high_temperature_alert ''36.0'') = ''Temperature is very high: 36.0'' @ degC \<and>
   sublist ''36.0'' (message (high_temperature_alert ''36.0''))"
proof -
  have windows: "alert_windows init_alerts_manager = []"
    by (simp add: init_alerts_manager_def)
  have run: "check_weather_alerts init_alerts_manager hot_reading =
     Inr ([high_temperature_alert ''36.0''],
          init_alerts_manager
            \<lparr>active_alerts := [high_temperature_alert ''36.0''],
             alert_windows := [[high_temperature_alert ''36.0'']]\<rparr>)"
    using check_weather_alerts_blocks
      [of init_alerts_manager hot_reading "[high_temperature_alert ''36.0'']" "[]" "[]" "[]"]
    by (simp add: hot_reading_blocks windows)
  have msg: "message (high_temperature_alert ''36.0'') =
      ''Temperature is very high: '' @ ''36.0'' @ degC"
    by (simp add: high_temperature_alert_def)
  have "sublist ''36.0'' (''Temperature is very high: '' @ ''36.0'' @ degC)"
    by (rule sublist_appendI)
  then have sub: "sublist ''36.0'' (message (high_temperature_alert ''36.0''))"
    by (simp only: msg)
  show ?thesis
    using run sub by (simp add: high_temperature_alert_def)
qed

text \<open>
  C10. A reading without a pressure field is checked with the pressure 1013: the pressure
  block emits the Low Pressure Alert (showing 1013.0) exactly when the \<open>low_pressure\<close>
  threshold is above 1013. So with a threshold below 1013 no alert of type pressure is
  ever returned, and the reading with no field at all gives the empty list under the
  default thresholds.
\<close>

theorem absent_pressure_defaults_to_1013:
  assumes absent: "map_of weather_data ''pressure'' = None"
  shows "pressure_alerts (alert_thresholds mgr) weather_data =
           (if 1013 < low_pressure (alert_thresholds mgr)
            then Inr [low_pressure_alert ''1013.0''] else Inr []) \<and>
         (low_pressure (alert_thresholds mgr) < 1013 \<longrightarrow>
            (\<forall>alerts mgr'. check_weather_alerts mgr weather_data = Inr (alerts, mgr') \<longrightarrow>
               (\<forall>a\<in>set alerts. alert_type a \<noteq> ''pressure''))) \<and>
         check_weather_alerts init_alerts_manager [] = Inr ([], init_alerts_manager)"
proof (intro conjI impI allI)
  show block: "pressure_alerts (alert_thresholds mgr) weather_data =
      (if 1013 < low_pressure (alert_thresholds mgr)
       then Inr [low_pressure_alert ''1013.0''] else Inr [])"
    using absent
    by (simp add: pressure_alerts_def dict_get_def py_lt_def err_bind_def
        format_fixed_examples format_f_small_int)
  show "\<forall>a\<in>set alerts. alert_type a \<noteq> ''pressure''"
    if low: "low_pressure (alert_thresholds mgr) < 1013"
      and run: "check_weather_alerts mgr weather_data = Inr (alerts, mgr')"
    for alerts mgr'
  proof -
    from check_weather_alerts_InrD [OF run] obtain a1 a2 a3 a4
      where a1: "temperature_alerts (alert_thresholds mgr) weather_data = Inr a1"
        and a2: "wind_alerts (alert_thresholds mgr) weather_data = Inr a2"
        and a3: "pressure_alerts (alert_thresholds mgr) weather_data = Inr a3"
        and a4: "severity_alerts (alert_thresholds mgr) weather_data = Inr a4"
        and alerts: "alerts = a1 @ a2 @ a3 @ a4"
      by blast
    from a3 block low have "a3 = []" by simp
    then show ?thesis
      using temperature_alerts_types [OF a1] wind_alerts_types [OF a2]
        severity_alerts_types [OF a4] alerts
      by auto
  qed
  show "check_weather_alerts init_alerts_manager [] = Inr ([], init_alerts_manager)"
    using check_weather_alerts_blocks [of init_alerts_manager "[]" "[]" "[]" "[]" "[]"]
    by (simp add: empty_reading_blocks init_alerts_manager_def)
qed

theorem absent_pressure_defaults_to_1013_witness:
  "map_of [(''wind_speed'', IntV 20)] ''pressure'' = None \<and>
   low_pressure (alert_thresholds init_alerts_manager) < 1013 \<and>
   pressure_alerts (alert_thresholds init_alerts_manager) [(''wind_speed'', IntV 20)] = Inr [] \<and>
   (\<exists>mgr'. check_weather_alerts init_alerts_manager [(''wind_speed'', IntV 20)] =
        Inr ([high_wind_alert ''20.0''], mgr')) \<and>
   alert_type (high_wind_alert ''20.0'') \<noteq> ''pressure''"
proof -
  let ?wd = "[(''wind_speed'', IntV 20)]"
  have blocks: "temperature_alerts default_thresholds ?wd = Inr []"
    "wind_alerts default_thresholds ?wd = Inr [high_wind_alert ''20.0'']"
    "severity_alerts default_thresholds ?wd = Inr []"
    by (simp_all add: temperature_alerts_def wind_alerts_def severity_alerts_def
        dict_get_def py_gt_def py_lt_def err_bind_def default_thresholds_def
        format_fixed_examples format_f_small_int)
  have pressure: "pressure_alerts default_thresholds ?wd = Inr []"
    using absent_pressure_defaults_to_1013 [of ?wd init_alerts_manager]
    by (simp add: default_thresholds_def)
  have "\<exists>mgr'. check_weather_alerts init_alerts_manager ?wd =
      Inr ([high_wind_alert ''20.0''], mgr')"
    using check_weather_alerts_blocks
      [of init_alerts_manager ?wd "[]" "[high_wind_alert ''20.0'']" "[]" "[]"]
    by (simp add: blocks pressure)
  then show ?thesis
    using pressure by (simp add: default_thresholds_def high_wind_alert_def)
qed

section \<open>City selectors\<close>

lemma split_loop_nonempty: "split_loop sep part s \<noteq> []"
  by (induction sep part s rule: split_loop.induct) auto

lemma split_loop_first:
  "sep \<noteq> [] \<Longrightarrow>
   hd (split_loop sep part s) = part @ fst (split_on_first sep s) \<and>
   tl (split_loop sep part s) =
     (if snd (split_on_first sep s) = [] \<and> fst (split_on_first sep s) = s then []
      else split_loop sep [] (snd (split_on_first sep s)))"
proof (induction sep part s rule: split_loop.induct)
  case (1 sep part)
  then show ?case by simp
next
  case (2 sep part c cs)
  show ?case
  proof (cases "take (length sep) (c # cs) = sep")
    case True
    with "2.prems" show ?thesis by simp
  next
    case False
    with "2.IH"(2) "2.prems" show ?thesis by auto
  qed
qed

text \<open>
  What the two shared lines compute for every selector: the city is the text before the
  first separator, the country is the text between the first and the second separator.
\<close>

lemma city_and_country_between_separators:
  "city_and_country selector =
     Inr (fst (split_on_first '', '' selector),
          fst (split_on_first '', '' (snd (split_on_first '', '' selector))))"
proof -
  let ?sep = "'', ''"
  let ?parts = "split_loop ?sep [] selector"
  let ?rest = "snd (split_on_first ?sep selector)"
  have sep: "?sep \<noteq> []" by simp
  have ne: "?parts \<noteq> []" by (rule split_loop_nonempty)
  have first: "hd ?parts = fst (split_on_first ?sep selector)"
    using split_loop_first [OF sep, of "[]" selector] by simp
  have rest: "tl ?parts =
      (if ?rest = [] \<and> fst (split_on_first ?sep selector) = selector then []
       else split_loop ?sep [] ?rest)"
    using split_loop_first [OF sep, of "[]" selector] by blast
  have second: "(if length ?parts > 1 then ?parts ! 1 else []) =
      fst (split_on_first ?sep ?rest)"
  proof (cases "?rest = [] \<and> fst (split_on_first ?sep selector) = selector")
    case True
    with rest have "tl ?parts = []" by simp
    with ne have "length ?parts = 1" by (cases ?parts) auto
    with True show ?thesis by simp
  next
    case False
    with rest have tl: "tl ?parts = split_loop ?sep [] ?rest" by simp
    have ne': "split_loop ?sep [] ?rest \<noteq> []" by (rule split_loop_nonempty)
    from ne tl ne' have "length ?parts > 1" by (cases ?parts) auto
    moreover from ne tl ne' have "?parts ! 1 = hd (split_loop ?sep [] ?rest)"
      by (cases ?parts) (auto simp: hd_conv_nth)
    moreover have "hd (split_loop ?sep [] ?rest) = fst (split_on_first ?sep ?rest)"
      using split_loop_first [OF sep, of "[]" ?rest] by simp
    ultimately show ?thesis by simp
  qed
  from ne obtain city others where parts: "?parts = city # others"
    by (cases ?parts) auto
  with first have city: "city = fst (split_on_first ?sep selector)" by simp
  have country: "(if length (city # others) > 1 then (city # others) ! 1 else []) =
      fst (split_on_first ?sep ?rest)"
    using second by (simp only: parts)
  show ?thesis
    unfolding city_and_country_def py_split_def err_bind_def
    using country parts city by (cases others) auto
qed

text \<open>
  C4. On the selector \<^verbatim>\<open>Washington, D.C., USA\<close> the program takes \<^verbatim>\<open>D.C.\<close> as the
  country; splitting on the first separator only, as the specification words it, gives
  \<^verbatim>\<open>D.C., USA\<close>.
\<close>

theorem city_and_country_drops_tail:
  "city_and_country ''Washington, D.C., USA'' = Inr (''Washington'', ''D.C.'') \<and>
   spec_city_and_country ''Washington, D.C., USA'' = (''Washington'', ''D.C., USA'')"
  by (simp add: city_and_country_def py_split_def err_bind_def spec_city_and_country_def)

section \<open>Applying preferences\<close>

lemma py_int_examples:
  "py_int ''abc'' = Inl ValueError"
  "py_int ''0'' = Inr 0"
  "py_int ''-5'' = Inr (- 5)"
  "py_int ''30'' = Inr 30"
  "py_int '' 1_000 '' = Inr 1000"
  "py_int ''1__0'' = Inl ValueError"
  "py_int '''' = Inl ValueError"
  by (simp_all add: py_int_def strip_def is_space_def parse_unsigned_def is_digit_def
      digit_val_def Let_def)

text \<open>
  An interval text that \<^verbatim>\<open>int\<close> rejects: the error box is shown and nothing else changes;
  the interval, the theme and the dialog stay as they were.
\<close>

lemma apply_preferences_rejects:
  assumes "py_int (refresh_var dlg) = Inl ValueError"
  shows "apply_preferences a dlg =
           ((a\<lparr>error_boxes := error_boxes a @
                 [Plain ''Please enter a valid refresh interval'']\<rparr>, dlg), None)"
  using assms by (simp add: apply_preferences_def)

text \<open>
  An interval text that \<^verbatim>\<open>int\<close> accepts is stored, multiplied by 1000, whatever its
  sign.
\<close>

lemma apply_preferences_accepts:
  assumes "py_int (refresh_var dlg) = Inr n" and "theme_var dlg \<in> set theme_names"
  shows "apply_preferences a dlg =
           ((a\<lparr>refresh_interval := n * 1000, theme := theme_var dlg\<rparr>,
             dlg\<lparr>dialog_open := False\<rparr>), None)"
  using assms by (simp add: apply_preferences_def Let_def)

text \<open>
  C5. With the interval text \<^verbatim>\<open>0\<close> (or \<^verbatim>\<open>-5\<close>) \<^verbatim>\<open>apply_preferences\<close> shows no error:
  it stores the interval 0 (or -5000) in place of the prior 30000 and closes the dialog.
  The text \<^verbatim>\<open>abc\<close> is rejected and leaves the interval at 30000.
\<close>

theorem apply_preferences_accepts_nonpositive:
  "apply_preferences init_app
     \<lparr>refresh_var = ''0'', temp_units_var = ''Celsius'', theme_var = ''clam'',
      dialog_open = True\<rparr> =
     ((init_app\<lparr>refresh_interval := 0, theme := ''clam''\<rparr>,
       \<lparr>refresh_var = ''0'', temp_units_var = ''Celsius'', theme_var = ''clam'',
        dialog_open = False\<rparr>), None) \<and>
   apply_preferences init_app
     \<lparr>refresh_var = ''-5'', temp_units_var = ''Celsius'', theme_var = ''clam'',
      dialog_open = True\<rparr> =
     ((init_app\<lparr>refresh_interval := - 5000, theme := ''clam''\<rparr>,
       \<lparr>refresh_var = ''-5'', temp_units_var = ''Celsius'', theme_var = ''clam'',
        dialog_open = False\<rparr>), None) \<and>
   refresh_interval init_app = 30000 \<and>
   refresh_interval (fst (fst (apply_preferences init_app
     \<lparr>refresh_var = ''abc'', temp_units_var = ''Celsius'', theme_var = ''clam'',
      dialog_open = True\<rparr>))) = 30000"
  by (simp add: apply_preferences_def py_int_examples theme_names_def init_app_def)

section \<open>What a refresh shows\<close>

lemma run_steps_keeps:
  assumes "\<And>f s s'. f \<in> set fs \<Longrightarrow> f s = Inr s' \<Longrightarrow> g s' = g s"
  shows "g (fst (run_steps fs s)) = g s"
  using assms
proof (induction fs arbitrary: s)
  case Nil
  then show ?case by simp
next
  case (Cons f fs)
  show ?case
  proof (cases "f s")
    case (Inl e)
    then show ?thesis by simp
  next
    case (Inr s')
    have "g (fst (run_steps fs s')) = g s'"
      using Cons.prems by (intro Cons.IH) auto
    moreover have "g s' = g s"
      using Cons.prems Inr by auto
    ultimately show ?thesis
      using Inr by simp
  qed
qed

lemma run_steps_Cons_Inr: "f s = Inr s' \<Longrightarrow> run_steps (f # fs) s = run_steps fs s'"
  by simp

text \<open>\<^verbatim>\<open>_update_ui_with_data\<close> never assigns \<^verbatim>\<open>self.current_city\<close>.\<close>

lemma update_ui_with_data_current_city:
  "current_city (fst (update_ui_with_data env a data)) = current_city a"
  unfolding update_ui_with_data_def
  by (rule run_steps_keeps)
     (auto simp: err_bind_def Let_def update_status_def split: sum.splits if_splits)

text \<open>Its first statement stores the data, and no later statement assigns it again.\<close>

lemma update_ui_with_data_current_data:
  "current_data (fst (update_ui_with_data env a data)) = Some data"
proof -
  have "current_data (fst (run_steps fs (a\<lparr>current_data := Some data\<rparr>))) = Some data"
    if "\<And>f s s'. f \<in> set fs \<Longrightarrow> f s = Inr s' \<Longrightarrow> current_data s' = current_data s"
    for fs :: "(weather_app \<Rightarrow> py_error + weather_app) list"
    using run_steps_keeps [of fs current_data "a\<lparr>current_data := Some data\<rparr>"] that
    by simp
  then show ?thesis
    unfolding update_ui_with_data_def run_steps.simps sum.case
    by (auto simp: err_bind_def Let_def update_status_def split: sum.splits if_splits)
qed

text \<open>
  The second statement writes the temperature label, with \<^verbatim>\<open>:.1f\<close> and the suffix
  \<open>degC\<close>; no later statement writes its text.
\<close>

lemma update_ui_with_data_temp_label:
  assumes "map_of data ''temperature'' = Some v" and "format_operand v = Inr c"
  shows "temp_label (fst (update_ui_with_data env a data)) = format_fixed 1 c @ degC"
proof -
  have "temp_label (fst (run_steps fs
          (a\<lparr>current_data := Some data, temp_label := format_fixed 1 c @ degC\<rparr>))) =
        format_fixed 1 c @ degC"
    if "\<And>f s s'. f \<in> set fs \<Longrightarrow> f s = Inr s' \<Longrightarrow> temp_label s' = temp_label s"
    for fs :: "(weather_app \<Rightarrow> py_error + weather_app) list"
    using run_steps_keeps [of fs temp_label
        "a\<lparr>current_data := Some data, temp_label := format_fixed 1 c @ degC\<rparr>"] that
    by simp
  moreover have "format_f 1 v = Inr (format_fixed 1 c)"
    using assms(2) by (rule format_f_operand)
  ultimately show ?thesis
    using assms(1)
    unfolding update_ui_with_data_def run_steps.simps sum.case
    by (auto simp: err_bind_def dict_index_def Let_def update_status_def
        split: sum.splits if_splits)
qed


lemma format_f_InrD:
  assumes "format_f p v = Inr shown"
  shows "\<exists>x. format_operand v = Inr x \<and> shown = format_fixed p x"
  using assms by (auto simp: format_f_def err_bind_def split: sum.splits)

lemma format_fixed_more:
  "format_fixed (Suc 0) 19 = ''19.0''"
  "format_fixed (Suc 0) 3 = ''3.0''"
  "format_fixed 0 10 = ''10''"
  "format_fixed 0 20 = ''20''"
  "show_int 50 = ''50''"
  by (simp_all add: format_fixed_def round_half_even_def show_int_def show_nat.simps
      digit_char_def Let_def)

lemma title_clear_sky: "py_title (StrV ''clear sky'') = Inr ''Clear Sky''"
  by (simp add: py_title_def lowercase_def uppercase_def to_upper_def to_lower_def)

text \<open>The row of Paris, applied to any state of the application.\<close>

lemma update_ui_with_data_paris:
  "update_ui_with_data example_env a paris_reading =
     (a\<lparr>current_data := Some paris_reading,
        temp_label := ''20.0'' @ degC,
        desc_label := ''Clear Sky'',
        feels_like_label := ''19.0'' @ degC,
        humidity_label := ''50%'',
        pressure_label := ''1013.0 hPa'',
        wind_speed_label := ''3.0 m/s'',
        comfort_label := ''80/100'',
        comfort_bar := FloatV 80,
        heat_index_label := ''Heat Index: 20.0'' @ degC,
        wind_chill_label := ''Wind Chill: 20.0'' @ degC,
        severity_label := ''Weather Severity: 10/100'',
        last_update_label := ''Last Update: 2024-05-01 12:00:00'',
        local_time_label := ''Local Time: 12:00:05'',
        temp_style := ''Normal.TLabel'',
        status_label := ''Data updated successfully''\<rparr>, None)"
  by (simp add: update_ui_with_data_def paris_reading_def example_env_def err_bind_def
      dict_index_def dict_get_def py_str_def py_gt_def py_lt_def update_status_def
      title_clear_sky format_fixed_examples format_fixed_more Let_def)

text \<open>
  A block that ran to its end ran its statement \<open>k\<close>; what that statement wrote to a
  field \<open>g\<close> is there at the end when no later statement writes \<open>g\<close>.
\<close>

lemma run_steps_nth:
  assumes "snd (run_steps fs s) = None" and "k < length fs"
  shows "\<exists>s1 s2. (fs ! k) s1 = Inr s2 \<and>
           fst (run_steps fs s) = fst (run_steps (drop (Suc k) fs) s2)"
  using assms
proof (induction fs arbitrary: s k)
  case Nil
  then show ?case by simp
next
  case (Cons f fs)
  show ?case
  proof (cases "f s")
    case (Inl e)
    then show ?thesis using Cons.prems by simp
  next
    case (Inr s')
    show ?thesis
    proof (cases k)
      case 0
      then show ?thesis using Inr by auto
    next
      case (Suc j)
      have "snd (run_steps fs s') = None" and "j < length fs"
        using Cons.prems Inr Suc by auto
      then obtain s1 s2 where "(fs ! j) s1 = Inr s2"
        and "fst (run_steps fs s') = fst (run_steps (drop (Suc j) fs) s2)"
        using Cons.IH by blast
      then show ?thesis using Inr Suc by auto
    qed
  qed
qed

lemma run_steps_written:
  assumes "snd (run_steps fs s) = None" and "k < length fs"
    and "\<And>s1 s2. (fs ! k) s1 = Inr s2 \<Longrightarrow> P (g s2)"
    and "\<And>f s s'. f \<in> set (drop (Suc k) fs) \<Longrightarrow> f s = Inr s' \<Longrightarrow> g s' = g s"
  shows "P (g (fst (run_steps fs s)))"
proof -
  obtain s1 s2 where "(fs ! k) s1 = Inr s2"
    and "fst (run_steps fs s) = fst (run_steps (drop (Suc k) fs) s2)"
    using run_steps_nth [OF assms(1,2)] by blast
  moreover have "g (fst (run_steps (drop (Suc k) fs) s2)) = g s2"
    using assms(4) by (rule run_steps_keeps)
  ultimately show ?thesis
    using assms(3) by simp
qed

lemma update_ui_with_data_shows_temperature:
  assumes "snd (update_ui_with_data env b data) = None"
  shows "\<exists>t. map_option format_operand (map_of data ''temperature'') = Some (Inr t) \<and>
           temp_label (fst (update_ui_with_data env b data)) = format_fixed 1 t @ degC"
  using assms unfolding update_ui_with_data_def
proof (rule run_steps_written
    [where k = "Suc 0"
       and g = temp_label], goal_cases)
  case 1
  show ?case by simp
next
  case (2 s1 s2)
  then show ?case
    by (auto simp: err_bind_def dict_index_def dict_get_def Let_def
        split: sum.splits option.splits dest!: format_f_InrD)
next
  case (3 f s s')
  then show ?case
    by (auto simp: err_bind_def Let_def update_status_def split: sum.splits if_splits)
qed

lemma update_ui_with_data_shows_feels_like:
  assumes "snd (update_ui_with_data env b data) = None"
  shows "\<exists>f. map_option format_operand (map_of data ''feels_like'') = Some (Inr f) \<and>
           feels_like_label (fst (update_ui_with_data env b data)) = format_fixed 1 f @ degC"
  using assms unfolding update_ui_with_data_def
proof (rule run_steps_written
    [where k = "Suc (Suc (Suc 0))"
       and g = feels_like_label], goal_cases)
  case 1
  show ?case by simp
next
  case (2 s1 s2)
  then show ?case
    by (auto simp: err_bind_def dict_index_def dict_get_def Let_def
        split: sum.splits option.splits dest!: format_f_InrD)
next
  case (3 f s s')
  then show ?case
    by (auto simp: err_bind_def Let_def update_status_def split: sum.splits if_splits)
qed

lemma update_ui_with_data_shows_heat_index:
  assumes "snd (update_ui_with_data env b data) = None"
  shows "\<exists>h. format_operand (dict_get data ''heat_index_c'' (IntV 0)) = Inr h \<and>
           heat_index_label (fst (update_ui_with_data env b data)) =
             ''Heat Index: '' @ format_fixed 1 h @ degC"
  using assms unfolding update_ui_with_data_def
proof (rule run_steps_written
    [where k = "Suc (Suc (Suc (Suc (Suc (Suc (Suc (Suc 0)))))))"
       and g = heat_index_label], goal_cases)
  case 1
  show ?case by simp
next
  case (2 s1 s2)
  then show ?case
    by (auto simp: err_bind_def dict_index_def dict_get_def Let_def
        split: sum.splits option.splits dest!: format_f_InrD)
next
  case (3 f s s')
  then show ?case
    by (auto simp: err_bind_def Let_def update_status_def split: sum.splits if_splits)
qed

lemma update_ui_with_data_shows_wind_chill:
  assumes "snd (update_ui_with_data env b data) = None"
  shows "\<exists>w. format_operand (dict_get data ''wind_chill_c'' (IntV 0)) = Inr w \<and>
           wind_chill_label (fst (update_ui_with_data env b data)) =
             ''Wind Chill: '' @ format_fixed 1 w @ degC"
  using assms unfolding update_ui_with_data_def
proof (rule run_steps_written
    [where k = "Suc (Suc (Suc (Suc (Suc (Suc (Suc (Suc (Suc 0))))))))"
       and g = wind_chill_label], goal_cases)
  case 1
  show ?case by simp
next
  case (2 s1 s2)
  then show ?case
    by (auto simp: err_bind_def dict_index_def dict_get_def Let_def
        split: sum.splits option.splits dest!: format_f_InrD)
next
  case (3 f s s')
  then show ?case
    by (auto simp: err_bind_def Let_def update_status_def split: sum.splits if_splits)
qed

text \<open>\<^verbatim>\<open>apply_preferences\<close> never reads the temperature-unit variable of the dialog.\<close>

lemma apply_preferences_ignores_units:
  "fst (fst (apply_preferences a (dlg\<lparr>temp_units_var := units\<rparr>))) =
   fst (fst (apply_preferences a dlg))"
  by (simp add: apply_preferences_def Let_def split: sum.splits)

text \<open>
  The claim of C6 as stated fails: after a dialog set to Fahrenheit has been applied, the
  row of Paris with 20 degrees Celsius is shown as 20.0 followed by \<open>degC\<close>, where the conversion
  \<open>20 * 9 / 5 + 32\<close> would show 68.0.
\<close>

theorem fahrenheit_preference_shows_celsius:
  "temp_units_var fahrenheit_dialog = ''Fahrenheit'' \<and>
   snd (apply_preferences paris_app fahrenheit_dialog) = None \<and>
   temp_label (fst (update_ui_with_data example_env
       (fst (fst (apply_preferences paris_app fahrenheit_dialog))) paris_reading)) =
     ''20.0'' @ degC \<and>
   format_fixed 1 (20 * 9 / 5 + 32) = ''68.0''"
  by (simp add: update_ui_with_data_paris fahrenheit_dialog_def apply_preferences_def
      py_int_examples theme_names_def format_fixed_examples)

text \<open>
  C6, amended. Whatever dialog has been applied before, Fahrenheit or Celsius, a refresh
  that runs \<^verbatim>\<open>_update_ui_with_data\<close> to its end shows the four temperatures of the
  reading (temperature, feels-like, heat index, wind chill) as the Celsius numbers
  themselves, as \<^verbatim>\<open>:.1f\<close> reads them (a float as it is, an int as its double), with one
  decimal and the suffix \<open>degC\<close>: no conversion to Fahrenheit is made.
\<close>

theorem temperatures_shown_in_celsius:
  assumes "snd (update_ui_with_data env (fst (fst (apply_preferences a dlg))) data) = None"
  shows "\<exists>t f h w.
     map_option format_operand (map_of data ''temperature'') = Some (Inr t) \<and>
     map_option format_operand (map_of data ''feels_like'') = Some (Inr f) \<and>
     format_operand (dict_get data ''heat_index_c'' (IntV 0)) = Inr h \<and>
     format_operand (dict_get data ''wind_chill_c'' (IntV 0)) = Inr w \<and>
     temp_label (fst (update_ui_with_data env (fst (fst (apply_preferences a dlg))) data)) =
       format_fixed 1 t @ degC \<and>
     feels_like_label (fst (update_ui_with_data env (fst (fst (apply_preferences a dlg))) data)) =
       format_fixed 1 f @ degC \<and>
     heat_index_label (fst (update_ui_with_data env (fst (fst (apply_preferences a dlg))) data)) =
       ''Heat Index: '' @ format_fixed 1 h @ degC \<and>
     wind_chill_label (fst (update_ui_with_data env (fst (fst (apply_preferences a dlg))) data)) =
       ''Wind Chill: '' @ format_fixed 1 w @ degC"
  using update_ui_with_data_shows_temperature [OF assms]
    update_ui_with_data_shows_feels_like [OF assms]
    update_ui_with_data_shows_heat_index [OF assms]
    update_ui_with_data_shows_wind_chill [OF assms]
  by blast

theorem temperatures_shown_in_celsius_witness:
  "snd (update_ui_with_data example_env
          (fst (fst (apply_preferences paris_app fahrenheit_dialog))) paris_reading) = None \<and>
   (\<exists>t f h w.
     map_option format_operand (map_of paris_reading ''temperature'') = Some (Inr t) \<and>
     map_option format_operand (map_of paris_reading ''feels_like'') = Some (Inr f) \<and>
     format_operand (dict_get paris_reading ''heat_index_c'' (IntV 0)) = Inr h \<and>
     format_operand (dict_get paris_reading ''wind_chill_c'' (IntV 0)) = Inr w \<and>
     temp_label (fst (update_ui_with_data example_env
         (fst (fst (apply_preferences paris_app fahrenheit_dialog))) paris_reading)) =
       format_fixed 1 t @ degC \<and>
     feels_like_label (fst (update_ui_with_data example_env
         (fst (fst (apply_preferences paris_app fahrenheit_dialog))) paris_reading)) =
       format_fixed 1 f @ degC \<and>
     heat_index_label (fst (update_ui_with_data example_env
         (fst (fst (apply_preferences paris_app fahrenheit_dialog))) paris_reading)) =
       ''Heat Index: '' @ format_fixed 1 h @ degC \<and>
     wind_chill_label (fst (update_ui_with_data example_env
         (fst (fst (apply_preferences paris_app fahrenheit_dialog))) paris_reading)) =
       ''Wind Chill: '' @ format_fixed 1 w @ degC)"
proof -
  have ran: "snd (update_ui_with_data example_env
      (fst (fst (apply_preferences paris_app fahrenheit_dialog))) paris_reading) = None"
    by (simp add: update_ui_with_data_paris)
  show ?thesis
    using ran
      temperatures_shown_in_celsius [of example_env paris_app fahrenheit_dialog paris_reading]
    by simp
qed

text \<open>
  An \<^verbatim>\<open>int\<close> beyond 53 bits is shown as its double: for \<open>2 ^ 53 + 1\<close> the label ends in
  \<open>992.0\<close>, not in \<open>993.0\<close>.
\<close>

lemma update_ui_with_data_int_beyond_53_bits:
  "temp_label (fst (update_ui_with_data env a [(''temperature'', IntV 9007199254740993)])) =
     ''9007199254740992.0'' @ degC"
proof -
  have "format_operand (IntV 9007199254740993) = Inr 9007199254740992"
    by (simp add: float_of_int_def round_to_double_example Let_def)
  moreover have "format_fixed 1 9007199254740992 = ''9007199254740992.0''"
    by (simp add: format_fixed_def round_half_even_def show_nat.simps digit_char_def Let_def)
  ultimately show ?thesis
    using update_ui_with_data_temp_label
      [of "[(''temperature'', IntV 9007199254740993)]" "IntV 9007199254740993"
        9007199254740992 env a]
    by simp
qed


section \<open>Failures of the latest-reading query\<close>

lemma city_and_country_examples:
  "city_and_country ''Paris, France'' = Inr (''Paris'', ''France'')"
  "city_and_country ''Tokyo, Japan'' = Inr (''Tokyo'', ''Japan'')"
  by (simp_all add: city_and_country_def py_split_def err_bind_def)

lemma load_query_args_paris: "load_query_args paris_app = Inr (''Paris'', ''France'')"
  by (simp add: load_query_args_def paris_app_def city_and_country_examples)

text \<open>
  An exception of the parse is caught by \<^verbatim>\<open>except Exception\<close> and posted as an error
  box; the database is not asked.
\<close>

lemma load_data_background_parse_error:
  assumes "load_query_args a = Inl e"
  shows "load_data_background env a =
           Inr ([], ShowError (WithError ''Error loading data: '' e))"
  using assms by (simp add: load_data_background_def load_data_try_def err_bind_def)

lemma load_data_background_parsed:
  assumes "load_query_args a = Inr (city, country)"
  shows "load_data_background env a = Inr (load_dispatch env city country)"
  using assms by (simp add: load_data_background_def load_data_try_def err_bind_def)

text \<open>With no city selected the parse raises: \<^verbatim>\<open>None\<close> has no \<^verbatim>\<open>split\<close>.\<close>

lemma load_query_args_init: "load_query_args init_app = Inl AttributeError"
  by (simp add: load_query_args_def init_app_def)

text \<open>
  The claim of C7 as stated fails: with Paris selected, a database whose query raises
  \<^verbatim>\<open>sqlite3.Error\<close> and a database with no row for Paris post the same callback, the
  status \<^verbatim>\<open>No data available for selected city\<close>, and neither opens an error box.
\<close>

theorem query_failure_indistinct_from_no_row:
  "latest_reading failing_env ''Paris'' ''France'' = SqliteError ''database is locked'' \<and>
   latest_reading empty_env ''Paris'' ''France'' = NoRow \<and>
   load_data_background failing_env paris_app =
     Inr ([''Database error: database is locked''],
          UpdateStatus ''No data available for selected city'') \<and>
   load_data_background empty_env paris_app =
     Inr ([], UpdateStatus ''No data available for selected city'') \<and>
   run_callback failing_env paris_app (UpdateStatus ''No data available for selected city'') =
     run_callback empty_env paris_app (UpdateStatus ''No data available for selected city'') \<and>
   error_boxes
     (run_callback failing_env paris_app
        (UpdateStatus ''No data available for selected city'')) = []"
proof -
  have raised:
    "latest_reading failing_env ''Paris'' ''France'' = SqliteError ''database is locked''"
    by (simp add: failing_env_def)
  have no_row: "latest_reading empty_env ''Paris'' ''France'' = NoRow"
    by (simp add: empty_env_def)
  have failing: "load_data_background failing_env paris_app =
      Inr ([''Database error: database is locked''],
           UpdateStatus ''No data available for selected city'')"
    by (simp add: load_data_background_parsed [OF load_query_args_paris] load_dispatch_def
        get_current_weather_data_def raised)
  have empty: "load_data_background empty_env paris_app =
      Inr ([], UpdateStatus ''No data available for selected city'')"
    by (simp add: load_data_background_parsed [OF load_query_args_paris] load_dispatch_def
        get_current_weather_data_def no_row)
  have boxes: "error_boxes paris_app = []"
    by (simp add: paris_app_def init_app_def)
  show ?thesis
    by (simp add: failing empty boxes raised no_row run_callback_def update_status_def)
qed

text \<open>
  C7, amended. No exception leaves \<^verbatim>\<open>_load_data_background\<close>: it always ends by posting
  one callback. When the latest-reading query raises \<^verbatim>\<open>sqlite3.Error\<close> with text \<open>e\<close>,
  \<^verbatim>\<open>get_current_weather_data\<close> prints \<^verbatim>\<open>Database error: e\<close> and returns \<^verbatim>\<open>None\<close>, and the
  callback posted is the status \<^verbatim>\<open>No data available for selected city\<close>, the same that
  an empty result gives; running it only sets the status bar. When the parse of the
  selection raises \<open>e\<close>, the callback posted is \<^verbatim>\<open>show_error\<close> with the text
  \<^verbatim>\<open>Error loading data: e\<close>; running it opens an error box with that text and sets the
  status bar to \<^verbatim>\<open>Error occurred\<close>.
\<close>

theorem query_failure_reported_as_no_data:
  "(\<exists>printed cb. load_data_background env a = Inr (printed, cb)) \<and>
   (load_query_args a = Inr (city, country) \<and>
    latest_reading env city country = SqliteError e \<and>
    latest_reading env' city country = NoRow \<longrightarrow>
      load_data_background env a =
        Inr ([''Database error: '' @ e],
             UpdateStatus ''No data available for selected city'') \<and>
      load_data_background env' a =
        Inr ([], UpdateStatus ''No data available for selected city'') \<and>
      run_callback env a (UpdateStatus ''No data available for selected city'') =
        a\<lparr>status_label := ''No data available for selected city''\<rparr>) \<and>
   (load_query_args a = Inl e' \<longrightarrow>
      load_data_background env a =
        Inr ([], ShowError (WithError ''Error loading data: '' e')) \<and>
      run_callback env a (ShowError (WithError ''Error loading data: '' e')) =
        a\<lparr>error_boxes := error_boxes a @ [WithError ''Error loading data: '' e'],
          status_label := ''Error occurred''\<rparr>)"
proof (intro conjI impI)
  show "\<exists>printed cb. load_data_background env a = Inr (printed, cb)"
    by (cases "load_data_try env a")
       (auto simp: load_data_background_def)
next
  assume "load_query_args a = Inr (city, country) \<and>
    latest_reading env city country = SqliteError e \<and>
    latest_reading env' city country = NoRow"
  then have parsed: "load_query_args a = Inr (city, country)"
    and raised: "latest_reading env city country = SqliteError e"
    and no_row: "latest_reading env' city country = NoRow"
    by simp_all
  show "load_data_background env a =
      Inr ([''Database error: '' @ e], UpdateStatus ''No data available for selected city'')"
    by (simp add: load_data_background_parsed [OF parsed] load_dispatch_def
        get_current_weather_data_def raised)
  show "load_data_background env' a =
      Inr ([], UpdateStatus ''No data available for selected city'')"
    by (simp add: load_data_background_parsed [OF parsed] load_dispatch_def
        get_current_weather_data_def no_row)
  show "run_callback env a (UpdateStatus ''No data available for selected city'') =
      a\<lparr>status_label := ''No data available for selected city''\<rparr>"
    by (simp add: run_callback_def update_status_def)
next
  assume raised: "load_query_args a = Inl e'"
  show "load_data_background env a =
      Inr ([], ShowError (WithError ''Error loading data: '' e'))"
    using raised by (rule load_data_background_parse_error)
  show "run_callback env a (ShowError (WithError ''Error loading data: '' e')) =
      a\<lparr>error_boxes := error_boxes a @ [WithError ''Error loading data: '' e'],
        status_label := ''Error occurred''\<rparr>"
    by (simp add: run_callback_def show_error_def update_status_def)
qed

theorem query_failure_reported_as_no_data_witness:
  "load_query_args paris_app = Inr (''Paris'', ''France'') \<and>
   latest_reading failing_env ''Paris'' ''France'' = SqliteError ''database is locked'' \<and>
   latest_reading empty_env ''Paris'' ''France'' = NoRow \<and>
   load_data_background failing_env paris_app =
     Inr ([''Database error: database is locked''],
          UpdateStatus ''No data available for selected city'') \<and>
   load_data_background empty_env paris_app =
     Inr ([], UpdateStatus ''No data available for selected city'') \<and>
   run_callback failing_env paris_app (UpdateStatus ''No data available for selected city'') =
     paris_app\<lparr>status_label := ''No data available for selected city''\<rparr> \<and>
   load_query_args init_app = Inl AttributeError \<and>
   load_data_background failing_env init_app =
     Inr ([], ShowError (WithError ''Error loading data: '' AttributeError)) \<and>
   run_callback failing_env init_app
       (ShowError (WithError ''Error loading data: '' AttributeError)) =
     init_app\<lparr>error_boxes := error_boxes init_app @
                   [WithError ''Error loading data: '' AttributeError],
               status_label := ''Error occurred''\<rparr>"
proof -
  have raised:
    "latest_reading failing_env ''Paris'' ''France'' = SqliteError ''database is locked''"
    by (simp add: failing_env_def)
  have no_row: "latest_reading empty_env ''Paris'' ''France'' = NoRow"
    by (simp add: empty_env_def)
  show ?thesis
    using query_failure_reported_as_no_data
        [of failing_env paris_app "''Paris''" "''France''" "''database is locked''"
          empty_env AttributeError]
      query_failure_reported_as_no_data
        [of failing_env init_app "''Paris''" "''France''" "''database is locked''"
          empty_env AttributeError]
      load_query_args_paris load_query_args_init raised no_row
    by simp
qed


section \<open>Responses and the selected city\<close>

lemma startup_example:
  "startup example_env =
     \<lparr>app = init_app
        \<lparr>current_city := Some ''Paris, France'',
         city_values := [''Paris, France'', ''Tokyo, Japan''],
         city_var := ''Paris, France'',
         status_label := ''Refreshing data...''\<rparr>,
      workers = [Spawned, Spawned], idle_callbacks = [], refresh_timers = [30000],
      stdout = []\<rparr>"
  by (simp add: startup_def load_initial_data_def get_available_cities_def example_env_def
      start_auto_refresh_def refresh_data_def update_status_def init_app_def Let_def)

lemma latest_reading_example:
  "latest_reading example_env ''Paris'' ''France'' = Row paris_reading"
  "latest_reading example_env ''Tokyo'' ''Japan'' = Row tokyo_reading"
  by (simp_all add: example_env_def)

lemma load_dispatch_example:
  "load_dispatch example_env ''Paris'' ''France'' = ([], UpdateUI paris_reading)"
  "load_dispatch example_env ''Tokyo'' ''Japan'' = ([], UpdateUI tokyo_reading)"
  by (simp_all add: load_dispatch_def get_current_weather_data_def latest_reading_example
      paris_reading_def tokyo_reading_def)

text \<open>
  The claim of C8 as stated fails: Paris is selected and its fetch is waiting for the
  database when the user selects Tokyo; Tokyo's response arrives and is applied, then
  the response of Paris arrives and is applied too. At the end Tokyo is selected and the
  view holds the data of Paris, with its temperature.
\<close>

theorem late_response_overwrites_view:
  "current_city (app (run example_env (startup example_env) late_paris_response)) =
     Some ''Tokyo, Japan'' \<and>
   current_data (app (run example_env (startup example_env) late_paris_response)) =
     Some paris_reading \<and>
   temp_label (app (run example_env (startup example_env) late_paris_response)) =
     ''20.0'' @ degC \<and>
   map_of tokyo_reading ''temperature'' = Some (FloatV 36)"
  by (simp add: run_def late_paris_response_def startup_example step_def on_city_changed_def
      refresh_data_def update_status_def worker_reads_def worker_returns_def
      load_query_args_def city_and_country_examples load_dispatch_example run_callback_def
      update_ui_with_data_paris update_ui_with_data_current_city tokyo_reading_def)

text \<open>
  C8, amended. A response carries no city and none is compared: the worker posts the
  answer of the database whatever city is selected by then, and the main loop applies a
  posted response whatever city is selected at that time. The view holds the response
  applied last, and the selection is left as it is.
\<close>

theorem response_applied_whatever_city_selected:
  "idle_callbacks (worker_returns env (s\<lparr>workers := [Querying city country]\<rparr>) 0) =
     idle_callbacks s @ [snd (load_dispatch env city country)] \<and>
   current_data (app (step env (s\<lparr>idle_callbacks := UpdateUI data # cbs\<rparr>) IdleCallback)) =
     Some data \<and>
   current_city (app (step env (s\<lparr>idle_callbacks := UpdateUI data # cbs\<rparr>) IdleCallback)) =
     current_city (app s)"
  by (simp add: worker_returns_def step_def run_callback_def update_ui_with_data_current_data
      update_ui_with_data_current_city split: prod.splits)


section \<open>The auto-refresh timer\<close>

lemma refresh_data_timers: "refresh_timers (refresh_data s) = refresh_timers s"
  by (simp add: refresh_data_def)

lemma refresh_data_interval: "refresh_interval (app (refresh_data s)) = refresh_interval (app s)"
  by (simp add: refresh_data_def update_status_def)

text \<open>
  \<^verbatim>\<open>start_auto_refresh\<close> arms one timer with the current interval when Tcl accepts it as a
  delay, and none when \<^verbatim>\<open>root.after\<close> raises.
\<close>

lemma start_auto_refresh_timers:
  "refresh_timers (fst (start_auto_refresh env s)) =
     (if accepts_delay env (refresh_interval (app s))
      then refresh_timers s @ [refresh_interval (app s)] else refresh_timers s)"
  by (simp add: start_auto_refresh_def Let_def refresh_data_timers refresh_data_interval)

lemma start_auto_refresh_interval:
  "refresh_interval (app (fst (start_auto_refresh env s))) = refresh_interval (app s)"
  by (simp add: start_auto_refresh_def Let_def refresh_data_interval)

text \<open>The pending timers after one event: only a timer that fires changes them.\<close>

lemma step_timers:
  "refresh_timers (step env s ev) =
     (case ev of
        TimerFired \<Rightarrow>
          (case refresh_timers s of
             [] \<Rightarrow> []
           | t # ts \<Rightarrow>
               if accepts_delay env (refresh_interval (app s))
               then ts @ [refresh_interval (app s)] else ts)
      | _ \<Rightarrow> refresh_timers s)"
proof (cases ev)
  case (CitySelected selector)
  then show ?thesis by (simp add: step_def on_city_changed_def refresh_data_timers)
next
  case RefreshClicked
  then show ?thesis by (simp add: step_def refresh_data_timers)
next
  case (PreferencesApplied dlg)
  then show ?thesis by (simp add: step_def)
next
  case TimerFired
  then show ?thesis
    by (simp add: step_def start_auto_refresh_timers split: list.splits)
next
  case (WorkerReads i)
  then show ?thesis
    by (simp add: step_def worker_reads_def split: sum.splits prod.splits)
next
  case (WorkerReturns i)
  then show ?thesis
    by (simp add: step_def worker_returns_def split: worker.splits prod.splits)
next
  case IdleCallback
  then show ?thesis by (simp add: step_def split: list.splits)
qed

lemma step_timers_le: "length (refresh_timers (step env s ev)) \<le> length (refresh_timers s)"
  by (simp add: step_timers split: event.splits list.splits)

lemma run_timers_le: "length (refresh_timers (run env s evs)) \<le> length (refresh_timers s)"
  unfolding run_def
proof (induction evs arbitrary: s)
  case Nil
  show ?case by simp
next
  case (Cons ev evs)
  have "length (refresh_timers (foldl (step env) (step env s ev) evs)) \<le>
      length (refresh_timers (step env s ev))"
    by (rule Cons.IH)
  then show ?case
    using step_timers_le [of env s ev] by simp
qed

lemma load_initial_data_interval:
  "refresh_interval (app (load_initial_data env s)) = refresh_interval (app s)"
  by (simp add: load_initial_data_def get_available_cities_def show_error_def
      update_status_def refresh_data_interval Let_def
      split: prod.splits cities_result.splits)

lemma load_initial_data_timers:
  "refresh_timers (load_initial_data env s) = refresh_timers s"
  by (simp add: load_initial_data_def refresh_data_timers Let_def split: prod.splits)

lemma startup_timers:
  "refresh_timers (startup env) = (if accepts_delay env 30000 then [30000] else [])"
  by (simp add: startup_def start_auto_refresh_timers load_initial_data_interval
      load_initial_data_timers init_app_def)

lemma startup_interval: "refresh_interval (app (startup env)) = 30000"
  by (simp add: startup_def start_auto_refresh_interval load_initial_data_interval
      init_app_def)

text \<open>Only applying a preferences dialog changes the refresh interval.\<close>

lemma update_ui_with_data_interval:
  "refresh_interval (fst (update_ui_with_data env a data)) = refresh_interval a"
  unfolding update_ui_with_data_def
  by (rule run_steps_keeps)
     (auto simp: err_bind_def Let_def update_status_def split: sum.splits if_splits)

lemma step_interval:
  assumes "case ev of PreferencesApplied dlg \<Rightarrow> False | _ \<Rightarrow> True"
  shows "refresh_interval (app (step env s ev)) = refresh_interval (app s)"
proof (cases ev)
  case (CitySelected selector)
  then show ?thesis by (simp add: step_def on_city_changed_def refresh_data_interval)
next
  case RefreshClicked
  then show ?thesis by (simp add: step_def refresh_data_interval)
next
  case (PreferencesApplied dlg)
  then show ?thesis using assms by simp
next
  case TimerFired
  then show ?thesis
    by (simp add: step_def start_auto_refresh_interval split: list.splits)
next
  case (WorkerReads i)
  then show ?thesis
    by (simp add: step_def worker_reads_def split: sum.splits prod.splits)
next
  case (WorkerReturns i)
  then show ?thesis
    by (simp add: step_def worker_returns_def split: worker.splits prod.splits)
next
  case IdleCallback
  then show ?thesis
    by (simp add: step_def run_callback_def update_ui_with_data_interval update_status_def
        show_error_def split: list.splits callback.splits)
qed

lemma run_keeps_timer:
  assumes "accepts_delay env (refresh_interval (app s))"
    and "length (refresh_timers s) = 1"
    and "\<forall>ev\<in>set evs. case ev of PreferencesApplied dlg \<Rightarrow> False | _ \<Rightarrow> True"
  shows "length (refresh_timers (run env s evs)) = 1 \<and>
         refresh_interval (app (run env s evs)) = refresh_interval (app s)"
  using assms unfolding run_def
proof (induction evs arbitrary: s)
  case Nil
  then show ?case by simp
next
  case (Cons ev evs)
  have ev: "case ev of PreferencesApplied dlg \<Rightarrow> False | _ \<Rightarrow> True"
    using Cons.prems(3) by simp
  have interval: "refresh_interval (app (step env s ev)) = refresh_interval (app s)"
    using ev by (rule step_interval)
  have timers: "length (refresh_timers (step env s ev)) = 1"
    using Cons.prems(1,2) ev
    by (cases "refresh_timers s") (auto simp: step_timers split: event.splits)
  have "length (refresh_timers (foldl (step env) (step env s ev) evs)) = 1 \<and>
      refresh_interval (app (foldl (step env) (step env s ev) evs)) =
        refresh_interval (app (step env s ev))"
    using Cons.prems(1,3) interval timers by (intro Cons.IH) simp_all
  then show ?case
    using interval by simp
qed

text \<open>
  The claim of C9 as stated fails: at startup \<^verbatim>\<open>load_initial_data\<close> and
  \<^verbatim>\<open>start_auto_refresh\<close> each start a cycle for Paris, so two are in flight at once; the
  timer starts a third while both are still in flight; and a cycle started with the
  Refresh button runs to its end without arming a timer.
\<close>

theorem refresh_cycles_overlap:
  "current_city (app (startup example_env)) = Some ''Paris, France'' \<and>
   in_flight (startup example_env) = 2 \<and>
   in_flight (run example_env (startup example_env) [TimerFired]) = 3 \<and>
   current_city (app (run example_env (startup example_env) [TimerFired])) =
     Some ''Paris, France'' \<and>
   refresh_timers (startup example_env) = [30000] \<and>
   refresh_timers (run example_env (startup example_env)
     [RefreshClicked, WorkerReads 2, WorkerReturns 2, IdleCallback]) = [30000]"
proof -
  have accepted: "accepts_delay example_env 30000"
    by (simp add: example_env_def)
  show ?thesis
    by (simp add: run_def startup_example in_flight_def step_def start_auto_refresh_def
        refresh_data_def update_status_def worker_reads_def worker_returns_def
        load_query_args_def city_and_country_examples load_dispatch_example run_callback_def
        Let_def accepted)
qed

text \<open>
  A second way in which it fails: \<^verbatim>\<open>apply_preferences\<close> stores the interval
  \<^verbatim>\<open>99999999999999999\<close> seconds unchecked; when the pending timer fires,
  \<^verbatim>\<open>root.after\<close> refuses the delay, no timer is armed, and no later event arms one.
\<close>

lemma oversized_interval_stops_auto_refresh:
  "refresh_interval (app (run example_env (startup example_env)
     [PreferencesApplied oversized_dialog])) = 99999999999999999000 \<and>
   refresh_timers (run example_env (startup example_env)
     [PreferencesApplied oversized_dialog]) = [30000] \<and>
   refresh_timers (run example_env (startup example_env)
     [PreferencesApplied oversized_dialog, TimerFired]) = [] \<and>
   refresh_timers (run example_env (startup example_env)
     ([PreferencesApplied oversized_dialog, TimerFired] @ evs)) = []"
proof -
  have parsed: "py_int ''99999999999999999'' = Inr 99999999999999999"
    by (simp add: py_int_def strip_def is_space_def parse_unsigned_def is_digit_def
        digit_val_def Let_def)
  have refused: "\<not> accepts_delay example_env 99999999999999999000"
    by (simp add: example_env_def)
  have applied: "apply_preferences a oversized_dialog =
      ((a\<lparr>refresh_interval := 99999999999999999000, theme := ''clam''\<rparr>,
        oversized_dialog\<lparr>dialog_open := False\<rparr>), None)" for a
    by (simp add: apply_preferences_def oversized_dialog_def parsed theme_names_def)
  have one: "run example_env (startup example_env) [PreferencesApplied oversized_dialog] =
      (startup example_env)
        \<lparr>app := (app (startup example_env))
           \<lparr>refresh_interval := 99999999999999999000, theme := ''clam''\<rparr>\<rparr>"
    by (simp add: run_def step_def applied)
  have fired: "refresh_timers (run example_env (startup example_env)
      [PreferencesApplied oversized_dialog, TimerFired]) = []"
    using refused
    by (simp add: run_def step_def applied startup_example start_auto_refresh_def
        refresh_data_def update_status_def Let_def)
  have "length (refresh_timers (run example_env
      (run example_env (startup example_env)
        [PreferencesApplied oversized_dialog, TimerFired]) evs)) \<le> 0"
    using run_timers_le
      [of example_env "run example_env (startup example_env)
        [PreferencesApplied oversized_dialog, TimerFired]" evs]
    by (simp only: fired list.size)
  then have later: "refresh_timers (run example_env (startup example_env)
      ([PreferencesApplied oversized_dialog, TimerFired] @ evs)) = []"
    by (simp add: run_def)
  show ?thesis
    using one fired later by (simp add: startup_example)
qed

text \<open>
  C9, amended. From startup on, in every execution, at most one auto-refresh timer is
  pending, and once none is pending none is armed again. Startup arms one timer of 30000
  ms when Tcl accepts that delay. A timer that fires is replaced by one new timer with the
  current interval when Tcl accepts the interval as a delay, and by none when
  \<^verbatim>\<open>root.after\<close> raises; the timer is armed when the cycle starts, not when it completes,
  and no other event arms or drops a timer. So exactly one timer is pending for as long
  as no preferences dialog is applied, when Tcl accepts 30000 ms. \<^verbatim>\<open>refresh_data\<close> starts a
  cycle whenever a city is selected, without looking at the cycles in flight, so cycles
  may overlap.
\<close>

theorem at_most_one_pending_refresh_timer:
  "length (refresh_timers (run env (startup env) evs)) \<le> 1 \<and>
   refresh_timers (run env (s\<lparr>refresh_timers := []\<rparr>) evs) = [] \<and>
   refresh_timers (startup env) = (if accepts_delay env 30000 then [30000] else []) \<and>
   refresh_timers (step env s ev) =
     (case ev of
        TimerFired \<Rightarrow>
          (case refresh_timers s of
             [] \<Rightarrow> []
           | t # ts \<Rightarrow>
               if accepts_delay env (refresh_interval (app s))
               then ts @ [refresh_interval (app s)] else ts)
      | _ \<Rightarrow> refresh_timers s) \<and>
   (accepts_delay env 30000 \<and>
    (\<forall>ev\<in>set evs. case ev of PreferencesApplied dlg \<Rightarrow> False | _ \<Rightarrow> True) \<longrightarrow>
      length (refresh_timers (run env (startup env) evs)) = 1) \<and>
   in_flight (refresh_data s) =
     (if current_city (app s) = None \<or> current_city (app s) = Some [] then in_flight s
      else in_flight s + 1)"
proof (intro conjI impI)
  have "length (refresh_timers (startup env)) \<le> 1"
    by (simp add: startup_timers)
  then show "length (refresh_timers (run env (startup env) evs)) \<le> 1"
    using run_timers_le [of env "startup env" evs] by linarith
  show "refresh_timers (run env (s\<lparr>refresh_timers := []\<rparr>) evs) = []"
    using run_timers_le [of env "s\<lparr>refresh_timers := []\<rparr>" evs] by simp
  show "refresh_timers (startup env) = (if accepts_delay env 30000 then [30000] else [])"
    by (rule startup_timers)
  show "refresh_timers (step env s ev) =
     (case ev of
        TimerFired \<Rightarrow>
          (case refresh_timers s of
             [] \<Rightarrow> []
           | t # ts \<Rightarrow>
               if accepts_delay env (refresh_interval (app s))
               then ts @ [refresh_interval (app s)] else ts)
      | _ \<Rightarrow> refresh_timers s)"
    by (rule step_timers)
  show "in_flight (refresh_data s) =
     (if current_city (app s) = None \<or> current_city (app s) = Some [] then in_flight s
      else in_flight s + 1)"
    by (simp add: refresh_data_def in_flight_def)
next
  assume "accepts_delay env 30000 \<and>
    (\<forall>ev\<in>set evs. case ev of PreferencesApplied dlg \<Rightarrow> False | _ \<Rightarrow> True)"
  then show "length (refresh_timers (run env (startup env) evs)) = 1"
    using run_keeps_timer [of env "startup env" evs]
    by (simp add: startup_interval startup_timers)
qed

theorem at_most_one_pending_refresh_timer_witness:
  "accepts_delay example_env 30000 \<and>
   list_all (\<lambda>ev. case ev of PreferencesApplied dlg \<Rightarrow> False | _ \<Rightarrow> True)
     [TimerFired, CitySelected ''Tokyo, Japan'', RefreshClicked] \<and>
   length (refresh_timers (run example_env (startup example_env)
     [TimerFired, CitySelected ''Tokyo, Japan'', RefreshClicked])) = 1 \<and>
   refresh_timers (startup example_env) = [30000]"
proof -
  have accepted: "accepts_delay example_env 30000"
    by (simp add: example_env_def)
  show ?thesis
    using at_most_one_pending_refresh_timer
      [of example_env "[TimerFired, CitySelected ''Tokyo, Japan'', RefreshClicked]"]
      accepted
    by simp
qed

end
